theory Spec2Isabelle
  imports Main "HOL-Library.Sublist" "HOL-Library.Word"
begin

section \<open>Repository locator\<close>

text \<open>
  The tool handlers pass \<^verbatim>\<open>resolve(rawProjectPath)\<close> to every operation, so
  \<^verbatim>\<open>findGitRepository\<close> walks a normalised absolute path. Such a path is modelled
  by the list of its segments: \<^verbatim>\<open>/a/b\<close> is \<open>[''a'', ''b'']\<close>, the filesystem
  root \<^verbatim>\<open>/\<close> is \<open>[]\<close>. On these paths \<^verbatim>\<open>dirname\<close> drops the last segment
  and maps the root to itself, and \<^verbatim>\<open>join(p, s)\<close> appends the segment \<open>s\<close>.
\<close>

type_synonym path = "string list"

definition dirname :: "path \<Rightarrow> path" where
  "dirname p = butlast p"

definition join :: "path \<Rightarrow> string \<Rightarrow> path" where
  "join p s = p @ [s]"

text \<open>
  \<^verbatim>\<open>findGitRepository(startPath)\<close>, lines 32-44. The first argument is the filesystem
  snapshot as \<^verbatim>\<open>existsSync\<close> sees it. The loop test
  \<^verbatim>\<open>currentPath !== dirname(currentPath)\<close> comes before the body, as in the source.
\<close>

function findGitRepository :: "(path \<Rightarrow> bool) \<Rightarrow> path \<Rightarrow> path option" where
  "findGitRepository existsSync currentPath =
     (if currentPath \<noteq> dirname currentPath then
        (if existsSync (join currentPath ''.git'') then Some currentPath
         else findGitRepository existsSync (dirname currentPath))
      else None)"
  by pat_completeness auto
termination
proof (relation "measure (\<lambda>(e, p). length p)")
  show "wf (measure (\<lambda>(e, p). length p))" by simp
next
  fix existsSync :: "path \<Rightarrow> bool" and currentPath :: path
  assume "currentPath \<noteq> dirname currentPath"
  then have "currentPath \<noteq> []" by (auto simp: dirname_def)
  then show "((existsSync, dirname currentPath), (existsSync, currentPath))
      \<in> measure (\<lambda>(e, p). length p)"
    by (simp add: dirname_def)
qed

declare findGitRepository.simps [simp del]

text \<open>
  The locator as the specification words it: the ancestors of the start path, closest
  first, the start path and the filesystem root both included; \<open>locate\<close> returns the
  first of them that holds the marker.
\<close>

definition ancestors :: "path \<Rightarrow> path list" where
  "ancestors p = rev (prefixes p)"

definition locate :: "(path \<Rightarrow> bool) \<Rightarrow> path \<Rightarrow> path option" where
  "locate existsSync startPath =
     List.find (\<lambda>d. existsSync (join d ''.git'')) (ancestors startPath)"

section \<open>Remote identity resolver\<close>

text \<open>
  Strings are lists of 8-bit characters. The remote URLs, hosts and paths the resolver
  handles are ASCII, where a character is one code unit in the source as well.
\<close>

definition startsWith :: "string \<Rightarrow> string \<Rightarrow> bool" where
  "startsWith s pre = prefix pre s"

definition endsWith :: "string \<Rightarrow> string \<Rightarrow> bool" where
  "endsWith s suf = prefix (rev suf) (rev s)"

text \<open>\<^verbatim>\<open>url.replace(/\.git$/, '')\<close>: one trailing \<^verbatim>\<open>.git\<close> is removed.\<close>

definition stripGitSuffix :: "string \<Rightarrow> string" where
  "stripGitSuffix url = (if endsWith url ''.git'' then take (length url - 4) url else url)"

text \<open>The character class \<^verbatim>\<open>[a-zA-Z0-9.-]\<close> of the three host patterns.\<close>

definition hostChar :: "char \<Rightarrow> bool" where
  "hostChar c \<longleftrightarrow>
     c \<in> set ''abcdefghijklmnopqrstuvwxyzABCDEFGHIJKLMNOPQRSTUVWXYZ0123456789.-''"

text \<open>
  The group \<^verbatim>\<open>([a-zA-Z0-9.-]*gitlab[a-zA-Z0-9.-]*|gitlab\.com)\<close> matched against a
  whole string \<open>h\<close>.
\<close>

definition gitlabHost :: "string \<Rightarrow> bool" where
  "gitlabHost h \<longleftrightarrow> (list_all hostChar h \<and> sublist ''gitlab'' h) \<or> h = ''gitlab.com''"

text \<open>
  \<^verbatim>\<open>/^<scheme>(<group>)<sep>/.test(s)\<close> for a separator outside the character class.
  The group can only end where the run of class characters after the scheme ends,
  because the separator follows it; so the run is taken whole and tested.
  Lemma \<open>matchesPattern_regex\<close> below relates this to the language of the pattern.
\<close>

definition matchesPattern :: "string \<Rightarrow> char \<Rightarrow> string \<Rightarrow> bool" where
  "matchesPattern scheme sep s \<longleftrightarrow>
     startsWith s scheme \<and>
     (let rest = drop (length scheme) s
      in gitlabHost (takeWhile hostChar rest) \<and>
         startsWith (dropWhile hostChar rest) [sep])"

text \<open>\<^verbatim>\<open>isGitLabRepository(url)\<close>, lines 47-66.\<close>

definition isGitLabRepository :: "string \<Rightarrow> bool" where
  "isGitLabRepository url \<longleftrightarrow>
     (if url = [] then False
      else let normalizedUrl = stripGitSuffix url
           in matchesPattern ''https://'' CHR ''/'' normalizedUrl
            \<or> matchesPattern ''git@'' CHR '':'' normalizedUrl
            \<or> matchesPattern ''ssh://git@'' CHR ''/'' normalizedUrl)"

text \<open>
  \<^verbatim>\<open>normalizedUrl.replace(/^git@([^:]+):/, 'https://$1/')\<close>: the text between
  \<^verbatim>\<open>git@\<close> and the first colon must be non-empty for the pattern to match.
\<close>

definition replaceScpPrefix :: "string \<Rightarrow> string" where
  "replaceScpPrefix s =
     (let rest = drop 4 s;
          h = takeWhile (\<lambda>c. c \<noteq> CHR '':'') rest;
          t = dropWhile (\<lambda>c. c \<noteq> CHR '':'') rest
      in if startsWith s ''git@'' \<and> h \<noteq> [] \<and> t \<noteq> [] then ''https://'' @ h @ ''/'' @ tl t
         else s)"

text \<open>The value of \<^verbatim>\<open>normalizedUrl\<close> when \<^verbatim>\<open>new URL\<close> is reached, lines 75-85.\<close>

definition normalizedUrl :: "string \<Rightarrow> string" where
  "normalizedUrl url =
     (let n0 = stripGitSuffix url;
          n1 = (if startsWith n0 ''git@'' then replaceScpPrefix n0 else n0)
      in if startsWith n1 ''ssh://git@'' then ''https://'' @ drop 10 n1 else n1)"

text \<open>\<^verbatim>\<open>s.split(c)\<close> and \<^verbatim>\<open>parts.join(sep)\<close> of JavaScript.\<close>

fun split :: "char \<Rightarrow> string \<Rightarrow> string list" where
  "split c [] = [[]]"
| "split c (x # xs) =
     (if x = c then [] # split c xs
      else (case split c xs of [] \<Rightarrow> [[x]] | y # ys \<Rightarrow> (x # y) # ys))"

fun joinWith :: "string \<Rightarrow> string list \<Rightarrow> string" where
  "joinWith sep [] = []"
| "joinWith sep [x] = x"
| "joinWith sep (x # y # ys) = x @ sep @ joinWith sep (y # ys)"

text \<open>
  \<^verbatim>\<open>encodeURIComponent\<close> on ASCII text: letters, digits and \<^verbatim>\<open>-_.!~*'()\<close> stay,
  every other character becomes \<^verbatim>\<open>%XX\<close> with upper-case hexadecimal digits.
\<close>

definition uriUnreserved :: "char \<Rightarrow> bool" where
  "uriUnreserved c \<longleftrightarrow>
     c \<in> set ''abcdefghijklmnopqrstuvwxyzABCDEFGHIJKLMNOPQRSTUVWXYZ0123456789-_.!~*()''
     \<or> c = CHR 0x27"

definition hexDigit :: "nat \<Rightarrow> char" where
  "hexDigit n = ''0123456789ABCDEF'' ! (n mod 16)"

definition encodeChar :: "char \<Rightarrow> string" where
  "encodeChar c =
     (if uriUnreserved c then [c]
      else [CHR ''%'', hexDigit (of_char c div 16), hexDigit (of_char c)])"

definition encodeURIComponent :: "string \<Rightarrow> string" where
  "encodeURIComponent s = concat (map encodeChar s)"

text \<open>
  \<^verbatim>\<open>new URL(s)\<close> is the platform's parser, not code of this repository. It is a
  parameter of the model: \<open>None\<close> when the constructor throws, otherwise the
  \<^verbatim>\<open>host\<close> and \<^verbatim>\<open>pathname\<close> properties of the URL object.
\<close>

type_synonym url_parser = "string \<Rightarrow> (string \<times> string) option"

record gitlabInfo =
  host :: string
  namespace :: string
  project :: string
  projectId :: string

text \<open>\<^verbatim>\<open>parseGitLabUrl(url)\<close>, lines 69-104.\<close>

definition parseGitLabUrl :: "url_parser \<Rightarrow> string \<Rightarrow> gitlabInfo option" where
  "parseGitLabUrl newURL url =
     (if url = [] then None
      else case newURL (normalizedUrl url) of
        None \<Rightarrow> None
      | Some (urlHost, pathname) \<Rightarrow>
          (let pathParts = filter (\<lambda>part. part \<noteq> []) (split CHR ''/'' pathname)
           in if length pathParts \<ge> 2
              then Some \<lparr> host = urlHost,
                          namespace = joinWith ''/'' (butlast pathParts),
                          project = last pathParts,
                          projectId = encodeURIComponent (joinWith ''/'' pathParts) \<rparr>
              else None))"

section \<open>Collaborators and effects\<close>

text \<open>
  A call into a collaborator (the \<^verbatim>\<open>git\<close> command, \<^verbatim>\<open>fetch\<close>, a body reader, the
  filesystem) either throws, with the \<^verbatim>\<open>message\<close> of the error, or returns.
\<close>

datatype 'a outcome = Throws string | Returns 'a

text \<open>
  A \<^verbatim>\<open>Response\<close> of \<^verbatim>\<open>node-fetch\<close>: \<^verbatim>\<open>ok\<close>, \<^verbatim>\<open>status\<close>, what \<^verbatim>\<open>text()\<close>
  resolves to, and what the reader of the expected body (\<^verbatim>\<open>json()\<close>, for an archive
  \<^verbatim>\<open>buffer()\<close>) resolves to.
\<close>

record 'a response =
  ok :: bool
  status :: nat
  bodyText :: "string outcome"
  body :: "'a outcome"

type_synonym buffer = "8 word list"

text \<open>
  The JSON bodies of the backend. The model is typed: a body that parses has the shape
  of its endpoint. A property the operations only copy is kept as its JSON text.
\<close>

type_synonym json = string

record pipelineBrief =
  pipeline_id :: nat
  pipeline_status :: json
  pipeline_ref :: json
  pipeline_sha :: json
  pipeline_web_url :: json
  pipeline_created_at :: json
  pipeline_updated_at :: json
  pipeline_duration :: json
  pipeline_coverage :: json

record pipeline = pipelineBrief +
  pipeline_source :: json
  pipeline_before_sha :: json
  pipeline_tag :: json
  pipeline_yaml_errors :: json
  pipeline_user :: json

type_synonym artifact = "(string \<times> json) list"

record artifactsFile =
  filename :: "string option"
  file_size :: nat

record job =
  job_id :: nat
  job_name :: string
  artifacts_file :: "artifactsFile option"
  job_artifacts :: "artifact list option"
  job_other :: "(string \<times> json) list"

text \<open>\<^verbatim>\<open>{...job, trace: trace}\<close>: the job with its log attached.\<close>

record jobWithLogs = job +
  trace :: string

text \<open>
  The effects an operation has on the outside: a request to the backend, a directory
  created, a file written. They are recorded in the order in which they are issued.
\<close>

datatype event = Fetch string | Mkdir path | WriteFile path buffer

text \<open>
  The environment of one invocation, a snapshot: the filesystem as \<^verbatim>\<open>existsSync\<close>
  sees it, \<^verbatim>\<open>git remote get-url origin\<close> run in a directory, \<^verbatim>\<open>new URL\<close>,
  \<^verbatim>\<open>process.env.GITLAB_TOKEN\<close>, the backend's answer to each URL and the outcome of
  the two filesystem writes. The source has one \<^verbatim>\<open>fetch\<close>; the model has one
  answer function per shape of body that the caller decodes. Every request carries
  the token in its \<^verbatim>\<open>Authorization\<close> header; the token is fixed by the environment,
  so the answers are indexed by the URL alone. What the operations print with
  \<^verbatim>\<open>console.error\<close> is not modelled.
\<close>

record env =
  existsSync :: "path \<Rightarrow> bool"
  gitRemoteOrigin :: "path \<Rightarrow> string outcome"
  newURL :: url_parser
  GITLAB_TOKEN :: "string option"
  fetchPipelines :: "string \<Rightarrow> pipeline list option response outcome"
  fetchPipeline :: "string \<Rightarrow> pipeline response outcome"
  fetchJobs :: "string \<Rightarrow> job list response outcome"
  fetchArtifacts :: "string \<Rightarrow> artifact list response outcome"
  fetchJob :: "string \<Rightarrow> job response outcome"
  fetchTrace :: "string \<Rightarrow> unit response outcome"
  fetchArchive :: "string \<Rightarrow> buffer response outcome"
  mkdirSync :: "path \<Rightarrow> unit outcome"
  writeFileSync :: "path \<Rightarrow> buffer \<Rightarrow> unit outcome"

text \<open>
  A computation: what it throws or returns, and the events it issued on the way.
  \<open>andThen\<close> is sequencing (\<^verbatim>\<open>await\<close> included), \<open>tryCatch\<close> a \<^verbatim>\<open>try\<close> block
  with its handler.
\<close>

type_synonym ('e, 'a) io = "('e + 'a) \<times> event list"

definition ret :: "'a \<Rightarrow> ('e, 'a) io" where
  "ret x = (Inr x, [])"

definition throw :: "'e \<Rightarrow> ('e, 'a) io" where
  "throw e = (Inl e, [])"

definition andThen :: "('e, 'a) io \<Rightarrow> ('a \<Rightarrow> ('e, 'b) io) \<Rightarrow> ('e, 'b) io" where
  "andThen m f =
     (case m of
        (Inl e, evs) \<Rightarrow> (Inl e, evs)
      | (Inr x, evs) \<Rightarrow> (case f x of (r, evs') \<Rightarrow> (r, evs @ evs')))"

definition tryCatch :: "('e, 'a) io \<Rightarrow> ('e \<Rightarrow> ('f, 'a) io) \<Rightarrow> ('f, 'a) io" where
  "tryCatch m handler =
     (case m of
        (Inl e, evs) \<Rightarrow> (case handler e of (r, evs') \<Rightarrow> (r, evs @ evs'))
      | (Inr x, evs) \<Rightarrow> (Inr x, evs))"

definition await :: "'a outcome \<Rightarrow> (string, 'a) io" where
  "await out = (case out of Throws m \<Rightarrow> throw m | Returns x \<Rightarrow> ret x)"

definition fetch :: "(string \<Rightarrow> 'a response outcome) \<Rightarrow> string \<Rightarrow> (string, 'a response) io" where
  "fetch backend url =
     (case backend url of
        Throws m \<Rightarrow> (Inl m, [Fetch url])
      | Returns r \<Rightarrow> (Inr r, [Fetch url]))"

definition mkdir :: "env \<Rightarrow> path \<Rightarrow> (string, unit) io" where
  "mkdir env p =
     (case mkdirSync env p of
        Throws m \<Rightarrow> (Inl m, [Mkdir p])
      | Returns u \<Rightarrow> (Inr (), [Mkdir p]))"

definition writeFile :: "env \<Rightarrow> path \<Rightarrow> buffer \<Rightarrow> (string, unit) io" where
  "writeFile env p buf =
     (case writeFileSync env p buf of
        Throws m \<Rightarrow> (Inl m, [WriteFile p buf])
      | Returns u \<Rightarrow> (Inr (), [WriteFile p buf]))"

text \<open>\<^verbatim>\<open>Promise.all\<close> over callbacks that each start at once: every callback's events
  are issued, in order; the result is the list of values, or the first rejection.\<close>

fun promiseAll :: "('e, 'a) io list \<Rightarrow> ('e, 'a list) io" where
  "promiseAll [] = ret []"
| "promiseAll (m # ms) =
     (case m of (r, evs) \<Rightarrow>
        (case promiseAll ms of (rs, evs') \<Rightarrow>
           (case r of
              Inl e \<Rightarrow> (Inl e, evs @ evs')
            | Inr x \<Rightarrow> (case rs of Inl e \<Rightarrow> (Inl e, evs @ evs')
                                  | Inr xs \<Rightarrow> (Inr (x # xs), evs @ evs')))))"

section \<open>Errors, messages and envelopes\<close>

text \<open>
  The sentence of an API error names the request that failed: the latest pipeline
  (lines 151, 777), the pipeline (177), the job (320, 389, 473, 660), the jobs of the
  pipeline (803), the download of artifacts (700), or nothing (573).
\<close>

datatype api_call =
  LatestPipelineCall | PipelineCall | JobCall | PipelineJobsCall | ArtifactDownloadCall
  | PlainCall

text \<open>
  What an operation throws: the sentences of lines 112, 122, 128 and 134 with the
  spliced path or URL, an API error with its status and body text, and \<open>Raised\<close> for
  an exception of a collaborator, with its message.
\<close>

datatype error =
    RepositoryNotFound path
  | NotAGitLabRepository string
  | UnparsableGitLabUrl string
  | TokenNotSet
  | ApiError api_call nat string
  | Raised string

text \<open>
  The message texts of the source are Russian sentences with values spliced in. The
  model keeps which sentence it is and the spliced values; for a failure that is the
  error that was caught.
\<close>

datatype message =
    Failed error
  | NoPipelinesFound
  | PipelineDetailsObtained
  | JobDetailsObtained
  | JobLogsObtained
  | JobArtifactsObtained
  | LatestPipelineObtained
  | JobHasNoArtifacts
  | JobArtifactsDownloaded
  | NoJobsWithArtifacts
  | PipelineArtifactsDownloaded nat nat

record 'd envelope =
  success :: bool
  message :: message
  data :: "'d option"

definition raised :: "(string, 'a) io \<Rightarrow> (error, 'a) io" where
  "raised m = (case m of (Inl msg, evs) \<Rightarrow> (Inl (Raised msg), evs) | (Inr x, evs) \<Rightarrow> (Inr x, evs))"

text \<open>
  The outer \<^verbatim>\<open>try\<close> of every operation: whatever is thrown inside becomes
  \<^verbatim>\<open>{success: false, message: error.message, data: null}\<close>.
\<close>

definition catchAll :: "(error, 'd envelope) io \<Rightarrow> 'd envelope \<times> event list" where
  "catchAll m =
     (case m of
        (Inl e, evs) \<Rightarrow> (\<lparr> success = False, message = Failed e, data = None \<rparr>, evs)
      | (Inr r, evs) \<Rightarrow> (r, evs))"

definition noPipelines :: "'d envelope" where
  "noPipelines = \<lparr> success = True, message = NoPipelinesFound, data = None \<rparr>"

section \<open>The start of every operation\<close>

text \<open>\<^verbatim>\<open>String.prototype.trim\<close> on ASCII text.\<close>

definition isSpace :: "char \<Rightarrow> bool" where
  "isSpace c \<longleftrightarrow> c \<in> set [CHR 0x09, CHR 0x0A, CHR 0x0B, CHR 0x0C, CHR 0x0D, CHR 0x20]"

definition trim :: "string \<Rightarrow> string" where
  "trim s = rev (dropWhile isSpace (rev (dropWhile isSpace s)))"

text \<open>
  Lines 121-129 of \<^verbatim>\<open>getPipelineDetails\<close>, repeated in every operation: the remote URL
  must be a GitLab URL and must parse.
\<close>

definition resolveIdentity :: "url_parser \<Rightarrow> string \<Rightarrow> error + gitlabInfo" where
  "resolveIdentity parser repoUrl =
     (if \<not> isGitLabRepository repoUrl then Inl (NotAGitLabRepository repoUrl)
      else case parseGitLabUrl parser repoUrl of
        None \<Rightarrow> Inl (UnparsableGitLabUrl repoUrl)
      | Some gitlabInfo \<Rightarrow> Inr gitlabInfo)"

text \<open>Lines 110-129: the repository is located, its remote URL read and resolved.\<close>

definition projectIdentity :: "env \<Rightarrow> path \<Rightarrow> (error, gitlabInfo) io" where
  "projectIdentity env projectPath =
     (case findGitRepository (existsSync env) projectPath of
        None \<Rightarrow> throw (RepositoryNotFound projectPath)
      | Some gitRepoPath \<Rightarrow>
          andThen (raised (await (gitRemoteOrigin env gitRepoPath))) (\<lambda>out.
            case resolveIdentity (newURL env) (trim out) of
              Inl e \<Rightarrow> throw e
            | Inr gitlabInfo \<Rightarrow> ret gitlabInfo))"

text \<open>Lines 131-135: the token must be set; an empty string is falsy as well.\<close>

definition requireToken :: "env \<Rightarrow> (error, string) io" where
  "requireToken env =
     (case GITLAB_TOKEN env of
        None \<Rightarrow> throw TokenNotSet
      | Some gitlabToken \<Rightarrow> if gitlabToken = [] then throw TokenNotSet else ret gitlabToken)"

text \<open>Lines 110-135, the start shared by the seven operations.\<close>

definition resolveProject :: "env \<Rightarrow> path \<Rightarrow> (error, gitlabInfo) io" where
  "resolveProject env projectPath =
     andThen (projectIdentity env projectPath) (\<lambda>gitlabInfo.
       andThen (requireToken env) (\<lambda>gitlabToken. ret gitlabInfo))"

section \<open>Backend addresses\<close>

text \<open>A non-negative integer spliced into a template literal: its decimal digits.\<close>

function showNat :: "nat \<Rightarrow> string" where
  "showNat n =
     (if n < 10 then [''0123456789'' ! n]
      else showNat (n div 10) @ [''0123456789'' ! (n mod 10)])"
  by pat_completeness auto
termination
  by (relation "measure id") auto

declare showNat.simps [simp del]

text \<open>The addresses requested, as the template literals of the source build them.\<close>

definition apiBase :: "gitlabInfo \<Rightarrow> string" where
  "apiBase gitlabInfo = ''https://'' @ host gitlabInfo @ ''/api/v4/projects/'' @ projectId gitlabInfo"

definition latestPipelineUrl :: "gitlabInfo \<Rightarrow> string" where
  "latestPipelineUrl gitlabInfo =
     apiBase gitlabInfo @ ''/pipelines?per_page=1&order_by=updated_at&sort=desc''"

definition pipelineUrl :: "gitlabInfo \<Rightarrow> nat \<Rightarrow> string" where
  "pipelineUrl gitlabInfo targetPipelineId =
     apiBase gitlabInfo @ ''/pipelines/'' @ showNat targetPipelineId"

definition jobsUrl :: "gitlabInfo \<Rightarrow> nat \<Rightarrow> string" where
  "jobsUrl gitlabInfo targetPipelineId = pipelineUrl gitlabInfo targetPipelineId @ ''/jobs''"

definition artifactsUrl :: "gitlabInfo \<Rightarrow> nat \<Rightarrow> string" where
  "artifactsUrl gitlabInfo targetPipelineId =
     pipelineUrl gitlabInfo targetPipelineId @ ''/artifacts''"

definition jobUrl :: "gitlabInfo \<Rightarrow> nat \<Rightarrow> string" where
  "jobUrl gitlabInfo jobId = apiBase gitlabInfo @ ''/jobs/'' @ showNat jobId"

definition traceUrl :: "gitlabInfo \<Rightarrow> nat \<Rightarrow> string" where
  "traceUrl gitlabInfo jobId = jobUrl gitlabInfo jobId @ ''/trace''"

definition jobArtifactsUrl :: "gitlabInfo \<Rightarrow> nat \<Rightarrow> string" where
  "jobArtifactsUrl gitlabInfo jobId = jobUrl gitlabInfo jobId @ ''/artifacts''"

section \<open>Results of the operations\<close>

text \<open>\<^verbatim>\<open>project: {host, namespace, name}\<close>, attached to the data of every operation.\<close>

record projectRef =
  ref_host :: string
  ref_namespace :: string
  ref_name :: string

definition projectOf :: "gitlabInfo \<Rightarrow> projectRef" where
  "projectOf gitlabInfo =
     \<lparr> ref_host = host gitlabInfo, ref_namespace = namespace gitlabInfo,
       ref_name = project gitlabInfo \<rparr>"

text \<open>
  An object literal that copies properties of a pipeline and adds \<^verbatim>\<open>project\<close> is the
  pair of the copied record and the project.
\<close>

record pipelineDetails =
  details_pipeline :: "pipeline \<times> projectRef"
  details_jobs :: "jobWithLogs list"
  details_artifacts :: "artifact list"

record jobLogs =
  logs_job :: job
  logs :: string
  logs_project :: projectRef

record jobArtifacts =
  artifacts_job :: job
  artifacts :: "artifact list"
  artifacts_project :: projectRef

record jobDownload =
  download_job :: job
  download_files :: "string list"
  download_path :: "path option"
  archivePath :: "path option"
  archiveSize :: "nat option"

record downloadResult =
  result_jobId :: nat
  result_jobName :: string
  result_fileName :: "string option"
  result_size :: nat
  result_success :: bool
  result_error :: "string option"

record pipelineDownload =
  dl_pipelineId :: nat
  dl_jobs :: "job list"
  dl_jobsWithArtifacts :: "job list option"
  dl_downloadedFiles :: "string list"
  dl_downloadPath :: "path option"
  dl_downloadResults :: "downloadResult list option"

section \<open>Pipeline aggregator\<close>

text \<open>
  \<^verbatim>\<open>if (!response.ok) { const errorText = await response.text(); throw new Error(...) }\<close>
\<close>

definition apiError :: "api_call \<Rightarrow> 'a response \<Rightarrow> (error, 'b) io" where
  "apiError call r =
     andThen (raised (await (bodyText r))) (\<lambda>errorText.
       throw (ApiError call (status r) errorText))"

text \<open>
  Lines 138-164, and again 763-790: the pipeline to work on. A missing or zero
  \<^verbatim>\<open>pipelineId\<close> is falsy and the latest pipeline is looked up; \<open>None\<close> is the early
  return of the no-pipelines envelope.
\<close>

definition targetPipelineId :: "env \<Rightarrow> gitlabInfo \<Rightarrow> nat option \<Rightarrow> (error, nat option) io" where
  "targetPipelineId env gitlabInfo pipelineId =
     (if pipelineId \<noteq> None \<and> pipelineId \<noteq> Some 0 then ret pipelineId
      else
        andThen (raised (fetch (fetchPipelines env) (latestPipelineUrl gitlabInfo))) (\<lambda>latestResponse.
          if \<not> ok latestResponse then apiError LatestPipelineCall latestResponse
          else
            andThen (raised (await (body latestResponse))) (\<lambda>latestPipelines.
              case latestPipelines of
                None \<Rightarrow> ret None
              | Some [] \<Rightarrow> ret None
              | Some (latest # others) \<Rightarrow> ret (Some (pipeline_id latest)))))"

text \<open>
  The UTF-8 bytes of the Russian sentence that opens the placeholder of lines 232-235,
  up to and including the colon and the space before the spliced error message.
\<close>

definition traceErrorPrefix :: string where
  "traceErrorPrefix =
     [CHR 0xD0, CHR 0x9E, CHR 0xD1, CHR 0x88, CHR 0xD0, CHR 0xB8, CHR 0xD0, CHR 0xB1,
      CHR 0xD0, CHR 0xBA, CHR 0xD0, CHR 0xB0, CHR 0x20, CHR 0xD0, CHR 0xBF, CHR 0xD1,
      CHR 0x80, CHR 0xD0, CHR 0xB8, CHR 0x20, CHR 0xD0, CHR 0xBF, CHR 0xD0, CHR 0xBE,
      CHR 0xD0, CHR 0xBB, CHR 0xD1, CHR 0x83, CHR 0xD1, CHR 0x87, CHR 0xD0, CHR 0xB5,
      CHR 0xD0, CHR 0xBD, CHR 0xD0, CHR 0xB8, CHR 0xD0, CHR 0xB8, CHR 0x20, CHR 0xD0,
      CHR 0xBB, CHR 0xD0, CHR 0xBE, CHR 0xD0, CHR 0xB3, CHR 0xD0, CHR 0xBE, CHR 0xD0,
      CHR 0xB2, CHR 0x3A, CHR 0x20]"

text \<open>The callback of \<^verbatim>\<open>jobs.map\<close>, lines 211-237, with its own \<^verbatim>\<open>try\<close>.\<close>

definition jobWithTrace :: "env \<Rightarrow> gitlabInfo \<Rightarrow> job \<Rightarrow> (error, jobWithLogs) io" where
  "jobWithTrace env gitlabInfo job =
     tryCatch
       (andThen (fetch (fetchTrace env) (traceUrl gitlabInfo (job_id job))) (\<lambda>traceResponse.
          andThen (if ok traceResponse then await (bodyText traceResponse) else ret []) (\<lambda>trace.
            ret (job.extend job \<lparr> trace = trace \<rparr>))))
       (\<lambda>errorMessage. ret (job.extend job \<lparr> trace = traceErrorPrefix @ errorMessage \<rparr>))"

text \<open>\<^verbatim>\<open>getPipelineDetails(projectPath, pipelineId)\<close>, lines 107-276.\<close>

definition getPipelineDetails ::
  "env \<Rightarrow> path \<Rightarrow> nat option \<Rightarrow> pipelineDetails envelope \<times> event list" where
  "getPipelineDetails env projectPath pipelineId =
     catchAll
      (andThen (resolveProject env projectPath) (\<lambda>gitlabInfo.
       andThen (targetPipelineId env gitlabInfo pipelineId) (\<lambda>target.
       case target of
         None \<Rightarrow> ret noPipelines
       | Some targetId \<Rightarrow>
         andThen (raised (fetch (fetchPipeline env) (pipelineUrl gitlabInfo targetId))) (\<lambda>pipelineResponse.
         if \<not> ok pipelineResponse then apiError PipelineCall pipelineResponse
         else
         andThen (raised (await (body pipelineResponse))) (\<lambda>pipeline.
         andThen (raised (fetch (fetchJobs env) (jobsUrl gitlabInfo targetId))) (\<lambda>jobsResponse.
         andThen (if ok jobsResponse then raised (await (body jobsResponse)) else ret []) (\<lambda>jobs.
         andThen (raised (fetch (fetchArtifacts env) (artifactsUrl gitlabInfo targetId))) (\<lambda>artifactsResponse.
         andThen (if ok artifactsResponse then raised (await (body artifactsResponse)) else ret []) (\<lambda>artifacts.
         andThen (promiseAll (map (jobWithTrace env gitlabInfo) jobs)) (\<lambda>jobsWithLogs.
           ret \<lparr> success = True, message = PipelineDetailsObtained,
                 data = Some \<lparr> details_pipeline = (pipeline, projectOf gitlabInfo),
                               details_jobs = jobsWithLogs,
                               details_artifacts = artifacts \<rparr> \<rparr>))))))))))"

section \<open>Single-job operations and the latest pipeline\<close>

text \<open>Lines 309-323, the same in the four operations on one job.\<close>

definition fetchJobOrThrow :: "env \<Rightarrow> gitlabInfo \<Rightarrow> nat \<Rightarrow> (error, job) io" where
  "fetchJobOrThrow env gitlabInfo jobId =
     andThen (raised (fetch (fetchJob env) (jobUrl gitlabInfo jobId))) (\<lambda>jobResponse.
       if \<not> ok jobResponse then apiError JobCall jobResponse
       else raised (await (body jobResponse)))"

text \<open>\<^verbatim>\<open>getJobDetails(projectPath, jobId)\<close>, lines 279-345.\<close>

definition getJobDetails ::
  "env \<Rightarrow> path \<Rightarrow> nat \<Rightarrow> (job \<times> projectRef) envelope \<times> event list" where
  "getJobDetails env projectPath jobId =
     catchAll
      (andThen (resolveProject env projectPath) (\<lambda>gitlabInfo.
       andThen (fetchJobOrThrow env gitlabInfo jobId) (\<lambda>job.
         ret \<lparr> success = True, message = JobDetailsObtained,
               data = Some (job, projectOf gitlabInfo) \<rparr>)))"

text \<open>\<^verbatim>\<open>getJobLogs(projectPath, jobId)\<close>, lines 348-429.\<close>

definition getJobLogs :: "env \<Rightarrow> path \<Rightarrow> nat \<Rightarrow> jobLogs envelope \<times> event list" where
  "getJobLogs env projectPath jobId =
     catchAll
      (andThen (resolveProject env projectPath) (\<lambda>gitlabInfo.
       andThen (fetchJobOrThrow env gitlabInfo jobId) (\<lambda>job.
       andThen (raised (fetch (fetchTrace env) (traceUrl gitlabInfo jobId))) (\<lambda>traceResponse.
       andThen (if ok traceResponse then raised (await (bodyText traceResponse)) else ret []) (\<lambda>trace.
         ret \<lparr> success = True, message = JobLogsObtained,
               data = Some \<lparr> logs_job = job, logs = trace,
                             logs_project = projectOf gitlabInfo \<rparr> \<rparr>)))))"

text \<open>
  \<^verbatim>\<open>getJobArtifacts(projectPath, jobId)\<close>, lines 432-525. The artifacts address is
  requested, and requested again when the first answer is OK;
  \<^verbatim>\<open>job.artifacts || []\<close> is taken when the second is OK too.
\<close>

definition getJobArtifacts :: "env \<Rightarrow> path \<Rightarrow> nat \<Rightarrow> jobArtifacts envelope \<times> event list" where
  "getJobArtifacts env projectPath jobId =
     catchAll
      (andThen (resolveProject env projectPath) (\<lambda>gitlabInfo.
       andThen (fetchJobOrThrow env gitlabInfo jobId) (\<lambda>job.
       andThen (raised (fetch (fetchArchive env) (jobArtifactsUrl gitlabInfo jobId))) (\<lambda>artifactsResponse.
       andThen
         (if ok artifactsResponse then
            andThen (raised (fetch (fetchArchive env) (jobArtifactsUrl gitlabInfo jobId))) (\<lambda>artifactsListResponse.
              if ok artifactsListResponse
              then ret (case job_artifacts job of None \<Rightarrow> [] | Some found \<Rightarrow> found)
              else ret [])
          else ret [])
         (\<lambda>found.
         ret \<lparr> success = True, message = JobArtifactsObtained,
               data = Some \<lparr> artifacts_job = job, artifacts = found,
                             artifacts_project = projectOf gitlabInfo \<rparr> \<rparr>)))))"

text \<open>\<^verbatim>\<open>getLatestPipeline(projectPath)\<close>, lines 528-616.\<close>

definition getLatestPipeline ::
  "env \<Rightarrow> path \<Rightarrow> (pipelineBrief \<times> projectRef) envelope \<times> event list" where
  "getLatestPipeline env projectPath =
     catchAll
      (andThen (resolveProject env projectPath) (\<lambda>gitlabInfo.
       andThen (raised (fetch (fetchPipelines env) (latestPipelineUrl gitlabInfo))) (\<lambda>response.
       if \<not> ok response then apiError PlainCall response
       else
       andThen (raised (await (body response))) (\<lambda>pipelines.
         case pipelines of
           None \<Rightarrow> ret noPipelines
         | Some [] \<Rightarrow> ret noPipelines
         | Some (latestPipeline # others) \<Rightarrow>
             ret \<lparr> success = True, message = LatestPipelineObtained,
                   data = Some (pipelineBrief.truncate latestPipeline,
                                projectOf gitlabInfo) \<rparr>))))"

section \<open>Artifact download manager\<close>

text \<open>\<^verbatim>\<open>job.artifacts_file && job.artifacts_file.filename\<close>\<close>

definition hasArtifactsFile :: "job \<Rightarrow> bool" where
  "hasArtifactsFile job \<longleftrightarrow>
     (case artifacts_file job of
        None \<Rightarrow> False
      | Some file \<Rightarrow> (case filename file of None \<Rightarrow> False | Some name \<Rightarrow> name \<noteq> []))"

text \<open>Create the target directory unless it exists, lines 686-688 and 832-834.\<close>

definition ensureDirectory :: "env \<Rightarrow> path \<Rightarrow> (error, unit) io" where
  "ensureDirectory env targetDownloadPath =
     (if \<not> existsSync env targetDownloadPath then raised (mkdir env targetDownloadPath)
      else ret ())"

text \<open>\<^verbatim>\<open>downloadJobArtifacts(projectPath, jobId, downloadPath)\<close>, lines 619-730.\<close>

definition downloadJobArtifacts ::
  "env \<Rightarrow> path \<Rightarrow> nat \<Rightarrow> path option \<Rightarrow> jobDownload envelope \<times> event list" where
  "downloadJobArtifacts env projectPath jobId downloadPath =
     catchAll
      (andThen (resolveProject env projectPath) (\<lambda>gitlabInfo.
       andThen (fetchJobOrThrow env gitlabInfo jobId) (\<lambda>job.
       if \<not> hasArtifactsFile job then
         ret \<lparr> success = True, message = JobHasNoArtifacts,
               data = Some \<lparr> download_job = job, download_files = [], download_path = None,
                             archivePath = None, archiveSize = None \<rparr> \<rparr>
       else
       let targetDownloadPath =
             (case downloadPath of
                Some given \<Rightarrow> given
              | None \<Rightarrow> join (join projectPath ''artifacts'') (''job_'' @ showNat jobId))
       in
       andThen (ensureDirectory env targetDownloadPath) (\<lambda>u.
       andThen (raised (fetch (fetchArchive env) (jobArtifactsUrl gitlabInfo jobId))) (\<lambda>artifactsResponse.
       if \<not> ok artifactsResponse then apiError ArtifactDownloadCall artifactsResponse
       else
       andThen (raised (await (body artifactsResponse))) (\<lambda>artifactsBuffer.
       let archiveFileName = ''artifacts_job_'' @ showNat jobId @ ''.zip'';
           archive = join targetDownloadPath archiveFileName
       in
       andThen (raised (writeFile env archive artifactsBuffer)) (\<lambda>u'.
         ret \<lparr> success = True, message = JobArtifactsDownloaded,
               data = Some \<lparr> download_job = job, download_files = [archiveFileName],
                             download_path = Some targetDownloadPath,
                             archivePath = Some archive,
                             archiveSize = Some (length artifactsBuffer) \<rparr> \<rparr>)))))))"

text \<open>\<^verbatim>\<open>job.name.replace(/[^a-zA-Z0-9]/g, '_')\<close>\<close>

definition sanitizeName :: "string \<Rightarrow> string" where
  "sanitizeName name =
     map (\<lambda>c. if c \<in> set ''abcdefghijklmnopqrstuvwxyzABCDEFGHIJKLMNOPQRSTUVWXYZ0123456789''
               then c else CHR ''_'') name"

text \<open>The archive name of line 851.\<close>

definition pipelineArchiveName :: "job \<Rightarrow> string" where
  "pipelineArchiveName job =
     ''artifacts_job_'' @ showNat (job_id job) @ ''_'' @ sanitizeName (job_name job) @ ''.zip''"

text \<open>
  The body of the loop of lines 840-884 for one job, with its own \<^verbatim>\<open>try\<close>. The two
  lists that the loop appends to are passed in and returned.
\<close>

definition downloadOne ::
  "env \<Rightarrow> gitlabInfo \<Rightarrow> path \<Rightarrow> job \<Rightarrow> string list \<times> downloadResult list
     \<Rightarrow> (error, string list \<times> downloadResult list) io" where
  "downloadOne env gitlabInfo targetDownloadPath job acc =
     (case acc of (files, results) \<Rightarrow>
      tryCatch
       (andThen (fetch (fetchArchive env) (jobArtifactsUrl gitlabInfo (job_id job))) (\<lambda>artifactsResponse.
        if ok artifactsResponse then
          andThen (await (body artifactsResponse)) (\<lambda>artifactsBuffer.
          let archiveFileName = pipelineArchiveName job in
          andThen (writeFile env (join targetDownloadPath archiveFileName) artifactsBuffer) (\<lambda>u.
            ret (files @ [archiveFileName],
                 results @ [\<lparr> result_jobId = job_id job, result_jobName = job_name job,
                              result_fileName = Some archiveFileName,
                              result_size = length artifactsBuffer,
                              result_success = True, result_error = None \<rparr>])))
        else
          ret (files,
               results @ [\<lparr> result_jobId = job_id job, result_jobName = job_name job,
                            result_fileName = None, result_size = 0,
                            result_success = False,
                            result_error = Some (''HTTP '' @ showNat (status artifactsResponse)) \<rparr>])))
       (\<lambda>errorMessage.
          ret (files,
               results @ [\<lparr> result_jobId = job_id job, result_jobName = job_name job,
                            result_fileName = None, result_size = 0,
                            result_success = False, result_error = Some errorMessage \<rparr>])))"

text \<open>\<^verbatim>\<open>for (const job of jobsWithArtifacts)\<close>: one job after the other.\<close>

fun downloadEach ::
  "env \<Rightarrow> gitlabInfo \<Rightarrow> path \<Rightarrow> job list \<Rightarrow> string list \<times> downloadResult list
     \<Rightarrow> (error, string list \<times> downloadResult list) io" where
  "downloadEach env gitlabInfo targetDownloadPath [] acc = ret acc"
| "downloadEach env gitlabInfo targetDownloadPath (job # rest) acc =
     andThen (downloadOne env gitlabInfo targetDownloadPath job acc)
       (downloadEach env gitlabInfo targetDownloadPath rest)"

text \<open>\<^verbatim>\<open>downloadPipelineArtifacts(projectPath, pipelineId, downloadPath)\<close>, lines 733-906.\<close>

definition downloadPipelineArtifacts ::
  "env \<Rightarrow> path \<Rightarrow> nat option \<Rightarrow> path option \<Rightarrow> pipelineDownload envelope \<times> event list" where
  "downloadPipelineArtifacts env projectPath pipelineId downloadPath =
     catchAll
      (andThen (resolveProject env projectPath) (\<lambda>gitlabInfo.
       andThen (targetPipelineId env gitlabInfo pipelineId) (\<lambda>target.
       case target of
         None \<Rightarrow> ret noPipelines
       | Some targetId \<Rightarrow>
         andThen (raised (fetch (fetchJobs env) (jobsUrl gitlabInfo targetId))) (\<lambda>jobsResponse.
         if \<not> ok jobsResponse then apiError PipelineJobsCall jobsResponse
         else
         andThen (raised (await (body jobsResponse))) (\<lambda>listed.
         let withArtifacts = filter hasArtifactsFile listed in
         if withArtifacts = [] then
           ret \<lparr> success = True, message = NoJobsWithArtifacts,
                 data = Some \<lparr> dl_pipelineId = targetId, dl_jobs = listed,
                               dl_jobsWithArtifacts = None,
                               dl_downloadedFiles = [], dl_downloadPath = None,
                               dl_downloadResults = None \<rparr> \<rparr>
         else
         let targetDownloadPath =
               (case downloadPath of
                  Some given \<Rightarrow> given
                | None \<Rightarrow> join (join projectPath ''artifacts'') (''pipeline_'' @ showNat targetId))
         in
         andThen (ensureDirectory env targetDownloadPath) (\<lambda>u.
         andThen (downloadEach env gitlabInfo targetDownloadPath withArtifacts ([], [])) (\<lambda>done.
         case done of (files, results) \<Rightarrow>
           ret \<lparr> success = True,
                 message = PipelineArtifactsDownloaded
                             (length (filter result_success results))
                             (length (filter (\<lambda>r. \<not> result_success r) results)),
                 data = Some \<lparr> dl_pipelineId = targetId, dl_jobs = listed,
                               dl_jobsWithArtifacts = Some withArtifacts,
                               dl_downloadedFiles = files,
                               dl_downloadPath = Some targetDownloadPath,
                               dl_downloadResults = Some results \<rparr> \<rparr>)))))))"

section \<open>Notions used in the statements\<close>

text \<open>
  The identity that resolution produces for a remote URL, \<open>None\<close> when it fails
  either way.
\<close>

definition identity :: "url_parser \<Rightarrow> string \<Rightarrow> gitlabInfo option" where
  "identity parser repoUrl =
     (case resolveIdentity parser repoUrl of Inl e \<Rightarrow> None | Inr gitlabInfo \<Rightarrow> Some gitlabInfo)"

text \<open>
  The three accepted shapes of a remote URL for a host \<open>h\<close> and a project path
  \<open>p\<close>, and the six forms that the suffix \<^verbatim>\<open>.git\<close> makes of them.
\<close>

definition httpsForm :: "string \<Rightarrow> string \<Rightarrow> string" where
  "httpsForm h p = ''https://'' @ h @ ''/'' @ p"

definition scpForm :: "string \<Rightarrow> string \<Rightarrow> string" where
  "scpForm h p = ''git@'' @ h @ '':'' @ p"

definition sshForm :: "string \<Rightarrow> string \<Rightarrow> string" where
  "sshForm h p = ''ssh://git@'' @ h @ ''/'' @ p"

definition remoteForms :: "string \<Rightarrow> string \<Rightarrow> string list" where
  "remoteForms h p =
     [httpsForm h p, httpsForm h (p @ ''.git''),
      scpForm h p, scpForm h (p @ ''.git''),
      sshForm h p, sshForm h (p @ ''.git'')]"

text \<open>
  The segments of the URL path: the non-empty parts of \<^verbatim>\<open>pathname\<close> between
  slashes, none when \<^verbatim>\<open>new URL\<close> throws; and the \<^verbatim>\<open>host\<close> of the parsed URL.
\<close>

definition pathSegments :: "url_parser \<Rightarrow> string \<Rightarrow> string list" where
  "pathSegments parser url =
     (case parser (normalizedUrl url) of
        None \<Rightarrow> []
      | Some (urlHost, pathname) \<Rightarrow> filter (\<lambda>part. part \<noteq> []) (split CHR ''/'' pathname))"

definition urlHost :: "url_parser \<Rightarrow> string \<Rightarrow> string" where
  "urlHost parser url =
     (case parser (normalizedUrl url) of None \<Rightarrow> [] | Some (h, pathname) \<Rightarrow> h)"

text \<open>A host that the three patterns accept.\<close>

definition acceptedHost :: "string \<Rightarrow> bool" where
  "acceptedHost h \<longleftrightarrow> list_all hostChar h \<and> gitlabHost h"

text \<open>
  The trace that a job is expected to carry, read off the answer to the job's own
  trace request alone: the log text when the answer is OK, the empty string when the
  status is not OK, and the placeholder followed by the error message when the request
  or the reading of its body throws.
\<close>

definition expectedTrace :: "env \<Rightarrow> gitlabInfo \<Rightarrow> job \<Rightarrow> string" where
  "expectedTrace env gitlabInfo job =
     (case fetchTrace env (traceUrl gitlabInfo (job_id job)) of
        Throws m \<Rightarrow> traceErrorPrefix @ m
      | Returns r \<Rightarrow>
          if ok r then (case bodyText r of Throws m \<Rightarrow> traceErrorPrefix @ m | Returns log \<Rightarrow> log)
          else [])"

text \<open>A trace request counts as failed when it throws, is not OK, or its body cannot be read.\<close>

definition traceFetchFails :: "env \<Rightarrow> gitlabInfo \<Rightarrow> job \<Rightarrow> bool" where
  "traceFetchFails env gitlabInfo job \<longleftrightarrow>
     (case fetchTrace env (traceUrl gitlabInfo (job_id job)) of
        Throws m \<Rightarrow> True
      | Returns r \<Rightarrow> \<not> ok r \<or> (case bodyText r of Throws m \<Rightarrow> True | Returns log \<Rightarrow> False))"

text \<open>
  The download of one job's archive succeeds when the request returns an OK answer,
  its body can be read and the archive can be written.
\<close>

definition downloadSucceeds :: "env \<Rightarrow> gitlabInfo \<Rightarrow> path \<Rightarrow> job \<Rightarrow> bool" where
  "downloadSucceeds env gitlabInfo targetDownloadPath job \<longleftrightarrow>
     (case fetchArchive env (jobArtifactsUrl gitlabInfo (job_id job)) of
        Throws m \<Rightarrow> False
      | Returns r \<Rightarrow>
          ok r \<and>
          (case body r of
             Throws m \<Rightarrow> False
           | Returns buf \<Rightarrow>
               (case writeFileSync env (join targetDownloadPath (pipelineArchiveName job)) buf of
                  Throws m \<Rightarrow> False
                | Returns u \<Rightarrow> True)))"

text \<open>The record and the events that one job's download leaves behind.\<close>

definition failedDownload :: "job \<Rightarrow> string \<Rightarrow> downloadResult" where
  "failedDownload job description =
     \<lparr> result_jobId = job_id job, result_jobName = job_name job, result_fileName = None,
       result_size = 0, result_success = False, result_error = Some description \<rparr>"

definition downloadResultFor :: "env \<Rightarrow> gitlabInfo \<Rightarrow> path \<Rightarrow> job \<Rightarrow> downloadResult" where
  "downloadResultFor env gitlabInfo targetDownloadPath job =
     (case fetchArchive env (jobArtifactsUrl gitlabInfo (job_id job)) of
        Throws m \<Rightarrow> failedDownload job m
      | Returns r \<Rightarrow>
          if \<not> ok r then failedDownload job (''HTTP '' @ showNat (status r))
          else
            (case body r of
               Throws m \<Rightarrow> failedDownload job m
             | Returns buf \<Rightarrow>
                 (case writeFileSync env (join targetDownloadPath (pipelineArchiveName job)) buf of
                    Throws m \<Rightarrow> failedDownload job m
                  | Returns u \<Rightarrow>
                      \<lparr> result_jobId = job_id job, result_jobName = job_name job,
                        result_fileName = Some (pipelineArchiveName job),
                        result_size = length buf, result_success = True,
                        result_error = None \<rparr>)))"

definition downloadEventsFor :: "env \<Rightarrow> gitlabInfo \<Rightarrow> path \<Rightarrow> job \<Rightarrow> event list" where
  "downloadEventsFor env gitlabInfo targetDownloadPath job =
     Fetch (jobArtifactsUrl gitlabInfo (job_id job)) #
     (case fetchArchive env (jobArtifactsUrl gitlabInfo (job_id job)) of
        Throws m \<Rightarrow> []
      | Returns r \<Rightarrow>
          if \<not> ok r then []
          else
            (case body r of
               Throws m \<Rightarrow> []
             | Returns buf \<Rightarrow> [WriteFile (join targetDownloadPath (pipelineArchiveName job)) buf]))"

text \<open>A property of the value of a computation, whenever it returns one.\<close>

definition yields :: "('a \<Rightarrow> bool) \<Rightarrow> ('e, 'a) io \<Rightarrow> bool" where
  "yields P m \<longleftrightarrow> (case fst m of Inl e \<Rightarrow> True | Inr x \<Rightarrow> P x)"

text \<open>
  The legitimate empty result: the project resolves and the backend answers the
  pipeline-list request with an OK response whose body is the empty list (or
  \<^verbatim>\<open>null\<close>).
\<close>

definition emptyPipelineList :: "env \<Rightarrow> path \<Rightarrow> bool" where
  "emptyPipelineList env projectPath \<longleftrightarrow>
     (case fst (resolveProject env projectPath) of
        Inl e \<Rightarrow> False
      | Inr gitlabInfo \<Rightarrow>
          (case fetchPipelines env (latestPipelineUrl gitlabInfo) of
             Throws m \<Rightarrow> False
           | Returns r \<Rightarrow> ok r \<and> (body r = Returns None \<or> body r = Returns (Some []))))"

text \<open>
  The rule every envelope obeys: a failure has no data, and a success has no data only
  in the empty-result case.
\<close>

definition envelopeContract :: "'d envelope \<Rightarrow> bool \<Rightarrow> bool" where
  "envelopeContract r emptyResult \<longleftrightarrow>
     (\<not> success r \<longrightarrow> data r = None) \<and> (success r \<and> data r = None \<longrightarrow> emptyResult)"

section \<open>Example environments\<close>

text \<open>
  For the examples: what \<^verbatim>\<open>new URL\<close> yields on \<^verbatim>\<open>https://host/path\<close> when the
  host is made of lower-case letters, digits, dots and hyphens and the path of
  unreserved characters and slashes without dot segments. Nothing else is parsed.
\<close>

definition plainUrl :: url_parser where
  "plainUrl s =
     (let rest = drop 8 s;
          h = takeWhile (\<lambda>c. c \<noteq> CHR ''/'') rest;
          p = dropWhile (\<lambda>c. c \<noteq> CHR ''/'') rest
      in if startsWith s ''https://'' \<and> h \<noteq> [] then Some (h, if p = [] then ''/'' else p)
         else None)"

text \<open>A snapshot whose only repository sits at the filesystem root.\<close>

definition root_only_fs :: "path \<Rightarrow> bool" where
  "root_only_fs p = (p = [''.git''])"

text \<open>
  A checkout at \<^verbatim>\<open>/home/dev/app\<close> of \<^verbatim>\<open>git@gitlab.com:group/subgroup/project.git\<close>,
  whose latest pipeline 7 has three jobs with artifacts. The variations that follow
  break one collaborator at a time.
\<close>

definition okResponse :: "string \<Rightarrow> 'a \<Rightarrow> 'a response" where
  "okResponse raw decoded =
     \<lparr> ok = True, status = 200, bodyText = Returns raw, body = Returns decoded \<rparr>"

definition errorResponse :: "nat \<Rightarrow> string \<Rightarrow> 'a response" where
  "errorResponse code raw =
     \<lparr> ok = False, status = code, bodyText = Returns raw,
       body = Throws ''Unexpected token in JSON'' \<rparr>"

definition demoInfo :: gitlabInfo where
  "demoInfo = \<lparr> host = ''gitlab.com'', namespace = ''group/subgroup'', project = ''project'',
                projectId = ''group%2Fsubgroup%2Fproject'' \<rparr>"

definition demoPipeline :: pipeline where
  "demoPipeline =
     \<lparr> pipeline_id = 7, pipeline_status = ''failed'', pipeline_ref = ''main'',
       pipeline_sha = ''0a1b2c3d4e'', pipeline_web_url = ''https://gitlab.com/p/7'',
       pipeline_created_at = ''2024-01-01'', pipeline_updated_at = ''2024-01-02'',
       pipeline_duration = ''60'', pipeline_coverage = ''null'',
       pipeline_source = ''push'', pipeline_before_sha = ''0000000000'',
       pipeline_tag = ''false'', pipeline_yaml_errors = ''null'', pipeline_user = ''dev'' \<rparr>"

definition demoJob :: "nat \<Rightarrow> string \<Rightarrow> job" where
  "demoJob n name =
     \<lparr> job_id = n, job_name = name,
       artifacts_file = Some \<lparr> filename = Some ''artifacts.zip'', file_size = 3 \<rparr>,
       job_artifacts = None, job_other = [] \<rparr>"

definition demoJobs :: "job list" where
  "demoJobs = [demoJob 11 ''build'', demoJob 12 ''unit test'', demoJob 13 ''package'']"

definition demoEnv :: env where
  "demoEnv =
     \<lparr> existsSync = (\<lambda>p. p = [''home'', ''dev'', ''app'', ''.git'']),
       gitRemoteOrigin = (\<lambda>cwd. Returns (''git@gitlab.com:group/subgroup/project.git'' @ [CHR 0x0A])),
       newURL = plainUrl,
       GITLAB_TOKEN = Some ''glpat-0123'',
       fetchPipelines = (\<lambda>url. Returns (okResponse ''[pipeline]'' (Some [demoPipeline]))),
       fetchPipeline = (\<lambda>url. Returns (okResponse ''pipeline'' demoPipeline)),
       fetchJobs = (\<lambda>url. Returns (okResponse ''[jobs]'' demoJobs)),
       fetchArtifacts = (\<lambda>url. Returns (okResponse ''[artifact]''
                          [[(''file_type'', ''archive''), (''filename'', ''artifacts.zip'')]])),
       fetchJob = (\<lambda>url. Returns (okResponse ''job'' (demoJob 12 ''unit test''))),
       fetchTrace = (\<lambda>url. Returns (okResponse
                      (if url = traceUrl demoInfo 11 then ''build ok''
                       else if url = traceUrl demoInfo 12 then ''2 tests failed''
                       else ''packaged'') ())),
       fetchArchive = (\<lambda>url. Returns (okResponse ''PK'' [80, 75, 3])),
       mkdirSync = (\<lambda>p. Returns ()),
       writeFileSync = (\<lambda>p buf. Returns ()) \<rparr>"

definition demoPath :: path where
  "demoPath = [''home'', ''dev'', ''app'', ''src'']"

text \<open>The token is not set.\<close>

definition tokenlessEnv :: env where
  "tokenlessEnv = demoEnv \<lparr> GITLAB_TOKEN := None \<rparr>"

text \<open>The project has no pipelines.\<close>

definition emptyPipelinesEnv :: env where
  "emptyPipelinesEnv = demoEnv \<lparr> fetchPipelines := (\<lambda>url. Returns (okResponse ''[]'' (Some []))) \<rparr>"

text \<open>The trace of job 12 is answered with 404; the trace request of job 12 throws.\<close>

definition traceStatusEnv :: env where
  "traceStatusEnv =
     demoEnv \<lparr> fetchTrace := (\<lambda>url. if url = traceUrl demoInfo 12
                                     then Returns (errorResponse 404 ''404 Not Found'')
                                     else fetchTrace demoEnv url) \<rparr>"

definition traceThrowsEnv :: env where
  "traceThrowsEnv =
     demoEnv \<lparr> fetchTrace := (\<lambda>url. if url = traceUrl demoInfo 12
                                     then Throws ''socket hang up''
                                     else fetchTrace demoEnv url) \<rparr>"

text \<open>The job listing throws; the job listing is answered with 500.\<close>

definition jobsThrowEnv :: env where
  "jobsThrowEnv = demoEnv \<lparr> fetchJobs := (\<lambda>url. Throws ''ECONNRESET'') \<rparr>"

definition jobsStatusEnv :: env where
  "jobsStatusEnv = demoEnv \<lparr> fetchJobs := (\<lambda>url. Returns (errorResponse 500 ''Internal Server Error'')) \<rparr>"

text \<open>The archive of job 12 is answered with 404.\<close>

definition archiveStatusEnv :: env where
  "archiveStatusEnv =
     demoEnv \<lparr> fetchArchive := (\<lambda>url. if url = jobArtifactsUrl demoInfo 12
                                       then Returns (errorResponse 404 ''404 Not Found'')
                                       else fetchArchive demoEnv url) \<rparr>"

section \<open>Properties of the repository locator\<close>

lemma findGitRepository_root: "findGitRepository e [] = None"
  by (subst findGitRepository.simps) (simp add: dirname_def)

lemma findGitRepository_snoc:
  "findGitRepository e (p @ [s]) =
     (if e (join (p @ [s]) ''.git'') then Some (p @ [s]) else findGitRepository e p)"
  by (subst findGitRepository.simps) (simp add: dirname_def)

lemma ancestors_root: "ancestors [] = [[]]"
  by (simp add: ancestors_def)

lemma ancestors_snoc: "ancestors (p @ [s]) = (p @ [s]) # ancestors p"
  by (simp add: ancestors_def)

lemma ancestors_nonempty: "ancestors p \<noteq> []"
  by (simp add: ancestors_def)

text \<open>What the loop computes: the closest ancestor other than the root that holds the marker.\<close>

lemma findGitRepository_nonroot:
  "findGitRepository e p =
     List.find (\<lambda>d. e (join d ''.git'')) (butlast (ancestors p))"
proof (induction p rule: rev_induct)
  case Nil
  show ?case by (simp add: findGitRepository_root ancestors_root)
next
  case (snoc s p)
  have "butlast (ancestors (p @ [s])) = (p @ [s]) # butlast (ancestors p)"
    by (simp add: ancestors_snoc ancestors_nonempty)
  then show ?case
    using snoc by (simp add: findGitRepository_snoc)
qed

text \<open>The loop and the specified locator differ only when the root holds the marker.\<close>

lemma findGitRepository_locate:
  "\<not> e (join [] ''.git'') \<Longrightarrow> findGitRepository e p = locate e p"
proof (induction p rule: rev_induct)
  case Nil
  then show ?case by (simp add: findGitRepository_root locate_def ancestors_root)
next
  case (snoc s p)
  then show ?case by (simp add: findGitRepository_snoc locate_def ancestors_snoc)
qed

text \<open>
  C4. The locator is claimed to return the closest ancestor holding the marker, the
  filesystem root included. With the marker only at the root, the specified locator
  finds the root, while \<open>findGitRepository\<close> reports not-found, from the root
  itself and from a directory below it.
\<close>

theorem C4_root_repository_missed:
  "locate root_only_fs [] = Some []
   \<and> findGitRepository root_only_fs [] = None
   \<and> locate root_only_fs [''a'', ''b''] = Some []
   \<and> findGitRepository root_only_fs [''a'', ''b''] = None"
  by (simp add: findGitRepository_nonroot locate_def ancestors_def root_only_fs_def join_def)

section \<open>Properties of the remote identity resolver\<close>

text \<open>The executable matcher accepts exactly the language of the pattern.\<close>

lemma takeWhile_run: "list_all P xs \<Longrightarrow> \<not> P y \<Longrightarrow> takeWhile P (xs @ y # ys) = xs"
  by (induction xs) auto

lemma dropWhile_run: "list_all P xs \<Longrightarrow> \<not> P y \<Longrightarrow> dropWhile P (xs @ y # ys) = y # ys"
  by (induction xs) auto

lemma prefix_past_foreign:
  "c \<notin> set xs \<Longrightarrow> prefix xs (ys @ c # zs) \<longleftrightarrow> prefix xs ys"
  by (auto simp: prefix_append prefix_Cons)

lemma endsWith_after_separator:
  "c \<notin> set suf \<Longrightarrow> endsWith (a @ c # p) suf \<longleftrightarrow> endsWith p suf"
  by (simp add: endsWith_def prefix_past_foreign)

lemma endsWith_append_self: "endsWith (x @ suf) suf"
  by (simp add: endsWith_def)

lemma stripGitSuffix_added: "stripGitSuffix (x @ ''.git'') = x"
proof -
  have "endsWith (x @ ''.git'') ''.git''" by (rule endsWith_append_self)
  then show ?thesis by (simp add: stripGitSuffix_def)
qed

lemma stripGitSuffix_absent: "\<not> endsWith x ''.git'' \<Longrightarrow> stripGitSuffix x = x"
  by (simp add: stripGitSuffix_def)

lemma matchesPattern_regex:
  assumes "\<not> hostChar sep"
  shows "matchesPattern scheme sep s \<longleftrightarrow>
      (\<exists>a b t. s = scheme @ a @ ''gitlab'' @ b @ sep # t \<and> list_all hostChar a \<and> list_all hostChar b)
    \<or> (\<exists>t. s = scheme @ ''gitlab.com'' @ sep # t)"
  (is "?L \<longleftrightarrow> ?R1 \<or> ?R2")
proof
  assume L: ?L
  define rest where "rest = drop (length scheme) s"
  define h where "h = takeWhile hostChar rest"
  from L have s: "s = scheme @ rest"
    by (auto simp: matchesPattern_def startsWith_def rest_def prefix_def)
  from L obtain t where t: "dropWhile hostChar rest = sep # t"
    by (auto simp: matchesPattern_def startsWith_def rest_def Let_def prefix_def)
  have rest: "rest = h @ sep # t"
    using t takeWhile_dropWhile_id[of hostChar rest] by (simp add: h_def)
  have allh: "list_all hostChar h"
    by (simp add: h_def list_all_iff) (meson set_takeWhileD)
  from L have "gitlabHost h"
    by (simp add: matchesPattern_def rest_def h_def Let_def)
  then consider "sublist ''gitlab'' h" | "h = ''gitlab.com''"
    by (auto simp: gitlabHost_def)
  then show "?R1 \<or> ?R2"
  proof cases
    case 1
    then obtain a b where ab: "h = a @ ''gitlab'' @ b" by (auto simp: sublist_def)
    with allh have "list_all hostChar a" "list_all hostChar b" by auto
    with ab s rest have ?R1 by auto
    then show ?thesis ..
  next
    case 2
    with s rest have ?R2 by auto
    then show ?thesis ..
  qed
next
  assume "?R1 \<or> ?R2"
  then show ?L
  proof
    assume ?R1
    then obtain a b t where s: "s = scheme @ a @ ''gitlab'' @ b @ sep # t"
      and a: "list_all hostChar a" and b: "list_all hostChar b" by blast
    have g: "list_all hostChar ''gitlab''" by (simp add: hostChar_def)
    have all: "list_all hostChar (a @ ''gitlab'' @ b)" using a b g by simp
    have rest: "drop (length scheme) s = (a @ ''gitlab'' @ b) @ sep # t" by (simp add: s)
    have "sublist ''gitlab'' (a @ ''gitlab'' @ b)" by (rule sublist_appendI)
    then have "gitlabHost (a @ ''gitlab'' @ b)" using all unfolding gitlabHost_def by blast
    then show ?L
      unfolding matchesPattern_def Let_def rest
      by (simp only: takeWhile_run[OF all assms] dropWhile_run[OF all assms])
         (simp add: startsWith_def s)
  next
    assume ?R2
    then obtain t where s: "s = scheme @ ''gitlab.com'' @ sep # t" by blast
    have all: "list_all hostChar ''gitlab.com''" by (simp add: hostChar_def)
    have rest: "drop (length scheme) s = ''gitlab.com'' @ sep # t" by (simp add: s)
    show ?L
      unfolding matchesPattern_def Let_def rest
      by (simp only: takeWhile_run[OF all assms] dropWhile_run[OF all assms])
         (simp add: startsWith_def s gitlabHost_def)
  qed
qed

lemma hostChar_separators: "\<not> hostChar CHR ''/''" "\<not> hostChar CHR '':''"
  by (simp_all add: hostChar_def)

lemma run_of_host:
  assumes "CHR ''/'' \<notin> set h" "CHR '':'' \<notin> set h" "sep = CHR ''/'' \<or> sep = CHR '':''"
    "sep' = CHR ''/'' \<or> sep' = CHR '':''"
  shows "gitlabHost (takeWhile hostChar (h @ sep # p)) \<and>
         startsWith (dropWhile hostChar (h @ sep # p)) [sep']
         \<longleftrightarrow> acceptedHost h \<and> sep = sep'"
proof (cases "list_all hostChar h")
  case True
  have ns: "\<not> hostChar sep" using assms(3) hostChar_separators by auto
  show ?thesis
    by (auto simp: takeWhile_run[OF True ns] dropWhile_run[OF True ns] acceptedHost_def True
        startsWith_def)
next
  case False
  then obtain c where c: "c \<in> set h" "\<not> hostChar c" by (auto simp: list_all_iff)
  then have tw: "takeWhile hostChar (h @ sep # p) = takeWhile hostChar h"
    by (simp add: takeWhile_append1)
  have dw: "dropWhile hostChar (h @ sep # p) = dropWhile hostChar h @ sep # p"
    using c by (simp add: dropWhile_append1)
  have ne: "dropWhile hostChar h \<noteq> []" using c by (auto simp: dropWhile_eq_Nil_conv)
  then have "hd (dropWhile hostChar h) \<in> set h"
    by (metis hd_in_set set_dropWhileD)
  then have "hd (dropWhile hostChar h) \<noteq> sep'" using assms by auto
  then have "\<not> startsWith (dropWhile hostChar (h @ sep # p)) [sep']"
    using ne by (cases "dropWhile hostChar h") (auto simp: dw startsWith_def)
  then show ?thesis using False by (simp add: acceptedHost_def)
qed

lemma matches_https_form:
  assumes "CHR ''/'' \<notin> set h" "CHR '':'' \<notin> set h"
  shows "matchesPattern ''https://'' CHR ''/'' (httpsForm h p) \<longleftrightarrow> acceptedHost h"
    and "\<not> matchesPattern ''git@'' CHR '':'' (httpsForm h p)"
    and "\<not> matchesPattern ''ssh://git@'' CHR ''/'' (httpsForm h p)"
  using run_of_host[OF assms, of "CHR ''/''" "CHR ''/''" p]
  by (simp_all add: matchesPattern_def startsWith_def httpsForm_def)

lemma matches_scp_form:
  assumes "CHR ''/'' \<notin> set h" "CHR '':'' \<notin> set h"
  shows "matchesPattern ''git@'' CHR '':'' (scpForm h p) \<longleftrightarrow> acceptedHost h"
    and "\<not> matchesPattern ''https://'' CHR ''/'' (scpForm h p)"
    and "\<not> matchesPattern ''ssh://git@'' CHR ''/'' (scpForm h p)"
  using run_of_host[OF assms, of "CHR '':''" "CHR '':''" p]
  by (simp_all add: matchesPattern_def startsWith_def scpForm_def)

lemma matches_ssh_form:
  assumes "CHR ''/'' \<notin> set h" "CHR '':'' \<notin> set h"
  shows "matchesPattern ''ssh://git@'' CHR ''/'' (sshForm h p) \<longleftrightarrow> acceptedHost h"
    and "\<not> matchesPattern ''https://'' CHR ''/'' (sshForm h p)"
    and "\<not> matchesPattern ''git@'' CHR '':'' (sshForm h p)"
  using run_of_host[OF assms, of "CHR ''/''" "CHR ''/''" p]
  by (simp_all add: matchesPattern_def startsWith_def sshForm_def)

lemma acceptedHost_nonempty: "acceptedHost h \<Longrightarrow> h \<noteq> []"
  by (auto simp: acceptedHost_def gitlabHost_def)

lemma form_suffix:
  "httpsForm h (p @ ''.git'') = httpsForm h p @ ''.git''"
  "scpForm h (p @ ''.git'') = scpForm h p @ ''.git''"
  "sshForm h (p @ ''.git'') = sshForm h p @ ''.git''"
  by (simp_all add: httpsForm_def scpForm_def sshForm_def)

lemma form_endsWith:
  "endsWith (httpsForm h p) ''.git'' \<longleftrightarrow> endsWith p ''.git''"
  "endsWith (scpForm h p) ''.git'' \<longleftrightarrow> endsWith p ''.git''"
  "endsWith (sshForm h p) ''.git'' \<longleftrightarrow> endsWith p ''.git''"
  using endsWith_after_separator[of "CHR ''/''" "''.git''" "''https://'' @ h" p]
    endsWith_after_separator[of "CHR '':''" "''.git''" "''git@'' @ h" p]
    endsWith_after_separator[of "CHR ''/''" "''.git''" "''ssh://git@'' @ h" p]
  by (simp_all add: httpsForm_def scpForm_def sshForm_def)

lemma form_nonempty: "httpsForm h p \<noteq> []" "scpForm h p \<noteq> []" "sshForm h p \<noteq> []"
  by (simp_all add: httpsForm_def scpForm_def sshForm_def)

lemma strip_forms:
  assumes "\<not> endsWith p ''.git''" "u \<in> set (remoteForms h p)"
  shows "stripGitSuffix u \<in> {httpsForm h p, scpForm h p, sshForm h p}"
proof -
  have bare: "stripGitSuffix (httpsForm h p) = httpsForm h p"
    "stripGitSuffix (scpForm h p) = scpForm h p"
    "stripGitSuffix (sshForm h p) = sshForm h p"
    using assms(1) by (simp_all add: stripGitSuffix_absent form_endsWith)
  have suffixed: "stripGitSuffix (httpsForm h (p @ ''.git'')) = httpsForm h p"
    "stripGitSuffix (scpForm h (p @ ''.git'')) = scpForm h p"
    "stripGitSuffix (sshForm h (p @ ''.git'')) = sshForm h p"
    by (simp_all only: form_suffix stripGitSuffix_added)
  from assms(2) have "u = httpsForm h p \<or> u = httpsForm h (p @ ''.git'')
      \<or> u = scpForm h p \<or> u = scpForm h (p @ ''.git'')
      \<or> u = sshForm h p \<or> u = sshForm h (p @ ''.git'')"
    by (simp add: remoteForms_def)
  then show ?thesis
    using bare suffixed by (elim disjE) simp_all
qed

lemma remoteForms_nonempty: "u \<in> set (remoteForms h p) \<Longrightarrow> u \<noteq> []"
  by (auto simp: remoteForms_def httpsForm_def scpForm_def sshForm_def)

lemma isGitLabRepository_forms:
  assumes "CHR ''/'' \<notin> set h" "CHR '':'' \<notin> set h" "\<not> endsWith p ''.git''"
    "u \<in> set (remoteForms h p)"
  shows "isGitLabRepository u \<longleftrightarrow> acceptedHost h"
proof -
  from strip_forms[OF assms(3,4)] consider
      "stripGitSuffix u = httpsForm h p"
    | "stripGitSuffix u = scpForm h p"
    | "stripGitSuffix u = sshForm h p"
    by blast
  then show ?thesis
  proof cases
    case 1
    then show ?thesis
      using matches_https_form[OF assms(1,2), of p] remoteForms_nonempty[OF assms(4)]
      by (simp add: isGitLabRepository_def)
  next
    case 2
    then show ?thesis
      using matches_scp_form[OF assms(1,2), of p] remoteForms_nonempty[OF assms(4)]
      by (simp add: isGitLabRepository_def)
  next
    case 3
    then show ?thesis
      using matches_ssh_form[OF assms(1,2), of p] remoteForms_nonempty[OF assms(4)]
      by (simp add: isGitLabRepository_def)
  qed
qed

lemma replaceScpPrefix_form:
  assumes "h \<noteq> []" "CHR '':'' \<notin> set h"
  shows "replaceScpPrefix (scpForm h p) = httpsForm h p"
proof -
  have all: "list_all (\<lambda>c. c \<noteq> CHR '':'') h" using assms(2) by (auto simp: list_all_iff)
  have tw: "takeWhile (\<lambda>c. c \<noteq> CHR '':'') (h @ CHR '':'' # p) = h"
    by (rule takeWhile_run[OF all]) simp
  have dw: "dropWhile (\<lambda>c. c \<noteq> CHR '':'') (h @ CHR '':'' # p) = CHR '':'' # p"
    by (rule dropWhile_run[OF all]) simp
  show ?thesis
    using assms(1) by (simp add: replaceScpPrefix_def startsWith_def tw dw scpForm_def httpsForm_def)
qed

lemma normalizedUrl_forms:
  assumes "h \<noteq> []" "CHR '':'' \<notin> set h" "\<not> endsWith p ''.git''" "u \<in> set (remoteForms h p)"
  shows "normalizedUrl u = httpsForm h p"
proof -
  from strip_forms[OF assms(3,4)] consider
      "stripGitSuffix u = httpsForm h p"
    | "stripGitSuffix u = scpForm h p"
    | "stripGitSuffix u = sshForm h p"
    by blast
  then show ?thesis
  proof cases
    case 1
    then show ?thesis by (simp add: normalizedUrl_def startsWith_def httpsForm_def)
  next
    case 2
    have "startsWith (scpForm h p) ''git@''" by (simp add: startsWith_def scpForm_def)
    moreover have "\<not> startsWith (httpsForm h p) ''ssh://git@''"
      by (simp add: startsWith_def httpsForm_def)
    ultimately show ?thesis
      using 2 replaceScpPrefix_form[OF assms(1,2), of p] by (simp add: normalizedUrl_def)
  next
    case 3
    then show ?thesis by (simp add: normalizedUrl_def startsWith_def sshForm_def httpsForm_def)
  qed
qed

text \<open>
  C2. A host \<open>h\<close> (no slash, no colon) and a project path \<open>p\<close> written without
  the \<^verbatim>\<open>.git\<close> suffix give six remote URLs: three shapes, each with and without
  the suffix. Identity resolution yields the same outcome for all six: the same host,
  namespace, project name and encoded identifier, or a failure for all of them. This
  holds whatever \<^verbatim>\<open>new URL\<close> does, since all six reach it as the same string.
\<close>

theorem C2_equivalent_remote_forms:
  assumes "CHR ''/'' \<notin> set h" and "CHR '':'' \<notin> set h" and "\<not> endsWith p ''.git''"
    and "u \<in> set (remoteForms h p)"
  shows "identity parser u = identity parser (httpsForm h p)"
proof -
  have first: "httpsForm h p \<in> set (remoteForms h p)"
    by (simp add: remoteForms_def)
  show ?thesis
  proof (cases "acceptedHost h")
    case False
    then show ?thesis
      using isGitLabRepository_forms[OF assms] isGitLabRepository_forms[OF assms(1-3) first]
      by (simp add: identity_def resolveIdentity_def)
  next
    case True
    then have ne: "h \<noteq> []" by (rule acceptedHost_nonempty)
    have "normalizedUrl u = normalizedUrl (httpsForm h p)"
      using normalizedUrl_forms[OF ne assms(2-4)] normalizedUrl_forms[OF ne assms(2,3) first]
      by simp
    then have "parseGitLabUrl parser u = parseGitLabUrl parser (httpsForm h p)"
      using remoteForms_nonempty[OF assms(4)] form_nonempty by (simp add: parseGitLabUrl_def)
    then show ?thesis
      using True isGitLabRepository_forms[OF assms] isGitLabRepository_forms[OF assms(1-3) first]
      by (simp add: identity_def resolveIdentity_def split: option.splits)
  qed
qed

theorem C2_equivalent_remote_forms_witness:
  "CHR ''/'' \<notin> set ''gitlab.example.com'' \<and> CHR '':'' \<notin> set ''gitlab.example.com''
   \<and> \<not> endsWith ''group/subgroup/project'' ''.git''
   \<and> ''git@gitlab.example.com:group/subgroup/project.git''
        \<in> set (remoteForms ''gitlab.example.com'' ''group/subgroup/project'')
   \<and> identity plainUrl ''git@gitlab.example.com:group/subgroup/project.git''
       = Some \<lparr> host = ''gitlab.example.com'', namespace = ''group/subgroup'',
                 project = ''project'', projectId = ''group%2Fsubgroup%2Fproject'' \<rparr>"
proof -
  have h1: "CHR ''/'' \<notin> set ''gitlab.example.com''" by simp
  have h2: "CHR '':'' \<notin> set ''gitlab.example.com''" by simp
  have h3: "\<not> endsWith ''group/subgroup/project'' ''.git''" by (simp add: endsWith_def)
  have h4: "''git@gitlab.example.com:group/subgroup/project.git''
        \<in> set (remoteForms ''gitlab.example.com'' ''group/subgroup/project'')"
    by (simp add: remoteForms_def scpForm_def)
  have v: "identity plainUrl (httpsForm ''gitlab.example.com'' ''group/subgroup/project'')
       = Some \<lparr> host = ''gitlab.example.com'', namespace = ''group/subgroup'',
                 project = ''project'', projectId = ''group%2Fsubgroup%2Fproject'' \<rparr>"
    by code_simp
  from C2_equivalent_remote_forms[OF h1 h2 h3 h4, of plainUrl] h1 h2 h3 h4 v
  show ?thesis by simp
qed

lemma joinWith_butlast_last:
  "2 \<le> length xs \<Longrightarrow> joinWith sep (butlast xs) @ sep @ last xs = joinWith sep xs"
proof (induction sep xs rule: joinWith.induct)
  case (3 sep x y ys)
  show ?case
  proof (cases ys)
    case Nil
    then show ?thesis by simp
  next
    case (Cons z zs)
    with 3 show ?thesis by simp
  qed
qed simp_all

lemma isGitLabRepository_nonempty: "isGitLabRepository url \<Longrightarrow> url \<noteq> []"
  by (auto simp: isGitLabRepository_def)

text \<open>
  C3. For an accepted remote URL, the segments are the non-empty parts of the URL path
  split on slashes (none when \<^verbatim>\<open>new URL\<close> throws). Resolution succeeds exactly when
  there are two or more: the project name is the last segment, the namespace the
  earlier ones joined by slashes (so nested groups stay in the namespace), and the
  encoded identifier is the percent-encoding of namespace, slash, project name. With
  fewer than two segments resolution fails.
\<close>

theorem C3_namespace_project_split:
  assumes "isGitLabRepository url"
  shows "resolveIdentity parser url =
     (let segments = pathSegments parser url;
          ns = joinWith ''/'' (butlast segments);
          name = last segments
      in if 2 \<le> length segments
         then Inr \<lparr> host = urlHost parser url, namespace = ns, project = name,
                     projectId = encodeURIComponent (ns @ ''/'' @ name) \<rparr>
         else Inl (UnparsableGitLabUrl url))"
proof (cases "parser (normalizedUrl url)")
  case None
  then show ?thesis
    using assms isGitLabRepository_nonempty[OF assms]
    by (simp add: resolveIdentity_def parseGitLabUrl_def pathSegments_def)
next
  case (Some r)
  obtain h pathname where r: "r = (h, pathname)" by (cases r)
  define segments where "segments = filter (\<lambda>part. part \<noteq> []) (split CHR ''/'' pathname)"
  have seg: "pathSegments parser url = segments"
    by (simp add: pathSegments_def Some r segments_def)
  have hst: "urlHost parser url = h"
    by (simp add: urlHost_def Some r)
  show ?thesis
  proof (cases "2 \<le> length segments")
    case True
    then show ?thesis
      using assms isGitLabRepository_nonempty[OF assms] joinWith_butlast_last[OF True, of "''/''"]
      by (simp add: resolveIdentity_def parseGitLabUrl_def Some r seg hst Let_def
          flip: segments_def)
  next
    case False
    then show ?thesis
      using assms isGitLabRepository_nonempty[OF assms]
      by (simp add: resolveIdentity_def parseGitLabUrl_def Some r seg hst Let_def
          flip: segments_def)
  qed
qed

theorem C3_namespace_project_split_witness:
  "isGitLabRepository ''https://gitlab.com/group/subgroup/project''
   \<and> pathSegments plainUrl ''https://gitlab.com/group/subgroup/project''
       = [''group'', ''subgroup'', ''project'']
   \<and> resolveIdentity plainUrl ''https://gitlab.com/group/subgroup/project''
       = Inr \<lparr> host = ''gitlab.com'', namespace = ''group/subgroup'', project = ''project'',
                 projectId = ''group%2Fsubgroup%2Fproject'' \<rparr>
   \<and> isGitLabRepository ''git@gitlab.com:project.git''
   \<and> pathSegments plainUrl ''git@gitlab.com:project.git'' = [''project'']
   \<and> resolveIdentity plainUrl ''git@gitlab.com:project.git''
       = Inl (UnparsableGitLabUrl ''git@gitlab.com:project.git'')"
proof -
  have a: "isGitLabRepository ''https://gitlab.com/group/subgroup/project''" by code_simp
  have s: "pathSegments plainUrl ''https://gitlab.com/group/subgroup/project''
       = [''group'', ''subgroup'', ''project'']" by code_simp
  have h: "urlHost plainUrl ''https://gitlab.com/group/subgroup/project'' = ''gitlab.com''"
    by code_simp
  have e: "encodeURIComponent ''group/subgroup/project'' = ''group%2Fsubgroup%2Fproject''"
    by code_simp
  have a': "isGitLabRepository ''git@gitlab.com:project.git''" by code_simp
  have s': "pathSegments plainUrl ''git@gitlab.com:project.git'' = [''project'']" by code_simp
  from C3_namespace_project_split[OF a, of plainUrl] C3_namespace_project_split[OF a', of plainUrl]
  show ?thesis
    by (simp add: a s h e a' s' Let_def)
qed

section \<open>Properties of sequencing\<close>

lemma andThen_Inl [simp]: "andThen (Inl e, evs) f = (Inl e, evs)"
  by (simp add: andThen_def)

lemma andThen_Inr [simp]: "andThen (Inr x, evs) f = (fst (f x), evs @ snd (f x))"
  by (simp add: andThen_def split: prod.splits)

lemma andThen_ret [simp]: "andThen (ret x) f = f x"
  by (simp add: ret_def)

lemma andThen_throw [simp]: "andThen (throw e) f = throw e"
  by (simp add: throw_def)

lemma raised_Inl [simp]: "raised (Inl m, evs) = (Inl (Raised m), evs)"
  by (simp add: raised_def)

lemma raised_Inr [simp]: "raised (Inr x, evs) = (Inr x, evs)"
  by (simp add: raised_def)

lemma catchAll_Inl [simp]:
  "catchAll (Inl e, evs) = (\<lparr> success = False, message = Failed e, data = None \<rparr>, evs)"
  by (simp add: catchAll_def)

lemma catchAll_Inr [simp]: "catchAll (Inr r, evs) = (r, evs)"
  by (simp add: catchAll_def)

lemma catchAll_throw [simp]:
  "catchAll (throw e) = (\<lparr> success = False, message = Failed e, data = None \<rparr>, [])"
  by (simp add: throw_def)

lemma tryCatch_Inl [simp]: "tryCatch (Inl e, evs) h = (fst (h e), evs @ snd (h e))"
  by (simp add: tryCatch_def split: prod.splits)

lemma tryCatch_Inr [simp]: "tryCatch (Inr x, evs) h = (Inr x, evs)"
  by (simp add: tryCatch_def)

lemma await_Returns [simp]: "await (Returns x) = (Inr x, [])"
  by (simp add: await_def ret_def)

lemma await_Throws [simp]: "await (Throws m) = (Inl m, [])"
  by (simp add: await_def throw_def)

section \<open>Properties of the start of every operation\<close>

lemma projectIdentity_silent: "snd (projectIdentity env projectPath) = []"
proof (cases "findGitRepository (existsSync env) projectPath")
  case None
  then show ?thesis by (simp add: projectIdentity_def throw_def)
next
  case (Some gitRepoPath)
  show ?thesis
    by (cases "gitRemoteOrigin env gitRepoPath")
       (simp_all add: projectIdentity_def Some throw_def ret_def split: sum.splits)
qed

lemma requireToken_silent: "snd (requireToken env) = []"
  by (simp add: requireToken_def throw_def ret_def split: option.splits)

lemma resolveProject_silent: "snd (resolveProject env projectPath) = []"
proof -
  obtain r where r: "projectIdentity env projectPath = (r, [])"
    using projectIdentity_silent[of env projectPath] by (cases "projectIdentity env projectPath") simp
  obtain t where t: "requireToken env = (t, [])"
    using requireToken_silent[of env] by (cases "requireToken env") simp
  show ?thesis
    by (cases r; cases t) (simp_all add: resolveProject_def r t ret_def)
qed

lemma resolveProject_resolved:
  "fst (resolveProject env projectPath) = Inr gitlabInfo
     \<Longrightarrow> resolveProject env projectPath = (Inr gitlabInfo, [])"
  using resolveProject_silent[of env projectPath] by (cases "resolveProject env projectPath") simp

lemma requireToken_absent:
  "GITLAB_TOKEN env = None \<or> GITLAB_TOKEN env = Some [] \<Longrightarrow> requireToken env = (Inl TokenNotSet, [])"
  by (auto simp: requireToken_def throw_def)

lemma resolveProject_absent:
  assumes "GITLAB_TOKEN env = None \<or> GITLAB_TOKEN env = Some []"
  shows "\<exists>e. resolveProject env projectPath = (Inl e, [])
           \<and> (\<forall>gitlabInfo. fst (projectIdentity env projectPath) = Inr gitlabInfo \<longrightarrow> e = TokenNotSet)"
proof -
  obtain r where r: "projectIdentity env projectPath = (r, [])"
    using projectIdentity_silent[of env projectPath] by (cases "projectIdentity env projectPath") simp
  show ?thesis
    by (cases r) (simp_all add: resolveProject_def r requireToken_absent[OF assms])
qed

text \<open>
  C9. Without a token (unset, or the empty string) none of the seven operations issues
  a request or touches the filesystem: the event list is empty and the envelope is a
  failure. When the repository is located and its remote resolves, so that the
  operation gets as far as the credential, the failure is the missing-token error.
\<close>

theorem C9_no_request_without_token:
  assumes "GITLAB_TOKEN env = None \<or> GITLAB_TOKEN env = Some []"
  shows "\<exists>e. (\<forall>gitlabInfo. fst (projectIdentity env projectPath) = Inr gitlabInfo \<longrightarrow> e = TokenNotSet)
     \<and> getLatestPipeline env projectPath
          = (\<lparr> success = False, message = Failed e, data = None \<rparr>, [])
     \<and> getPipelineDetails env projectPath pipelineId
          = (\<lparr> success = False, message = Failed e, data = None \<rparr>, [])
     \<and> getJobDetails env projectPath jobId
          = (\<lparr> success = False, message = Failed e, data = None \<rparr>, [])
     \<and> getJobLogs env projectPath jobId
          = (\<lparr> success = False, message = Failed e, data = None \<rparr>, [])
     \<and> getJobArtifacts env projectPath jobId
          = (\<lparr> success = False, message = Failed e, data = None \<rparr>, [])
     \<and> downloadJobArtifacts env projectPath jobId downloadPath
          = (\<lparr> success = False, message = Failed e, data = None \<rparr>, [])
     \<and> downloadPipelineArtifacts env projectPath pipelineId downloadPath
          = (\<lparr> success = False, message = Failed e, data = None \<rparr>, [])"
proof -
  from resolveProject_absent[OF assms, of projectPath] obtain e
    where e: "resolveProject env projectPath = (Inl e, [])"
      and tok: "\<forall>gitlabInfo. fst (projectIdentity env projectPath) = Inr gitlabInfo \<longrightarrow> e = TokenNotSet"
    by blast
  have "getLatestPipeline env projectPath
          = (\<lparr> success = False, message = Failed e, data = None \<rparr>, [])"
    by (simp add: getLatestPipeline_def e)
  moreover have "getPipelineDetails env projectPath pipelineId
          = (\<lparr> success = False, message = Failed e, data = None \<rparr>, [])"
    by (simp add: getPipelineDetails_def e)
  moreover have "getJobDetails env projectPath jobId
          = (\<lparr> success = False, message = Failed e, data = None \<rparr>, [])"
    by (simp add: getJobDetails_def e)
  moreover have "getJobLogs env projectPath jobId
          = (\<lparr> success = False, message = Failed e, data = None \<rparr>, [])"
    by (simp add: getJobLogs_def e)
  moreover have "getJobArtifacts env projectPath jobId
          = (\<lparr> success = False, message = Failed e, data = None \<rparr>, [])"
    by (simp add: getJobArtifacts_def e)
  moreover have "downloadJobArtifacts env projectPath jobId downloadPath
          = (\<lparr> success = False, message = Failed e, data = None \<rparr>, [])"
    by (simp add: downloadJobArtifacts_def e)
  moreover have "downloadPipelineArtifacts env projectPath pipelineId downloadPath
          = (\<lparr> success = False, message = Failed e, data = None \<rparr>, [])"
    by (simp add: downloadPipelineArtifacts_def e)
  ultimately show ?thesis using tok by blast
qed

theorem C9_no_request_without_token_witness:
  "GITLAB_TOKEN tokenlessEnv = None
   \<and> fst (projectIdentity tokenlessEnv demoPath) = Inr demoInfo
   \<and> getPipelineDetails tokenlessEnv demoPath None
        = (\<lparr> success = False, message = Failed TokenNotSet, data = None \<rparr>, [])
   \<and> downloadPipelineArtifacts tokenlessEnv demoPath (Some 7) None
        = (\<lparr> success = False, message = Failed TokenNotSet, data = None \<rparr>, [])
   \<and> getJobLogs tokenlessEnv demoPath 12
        = (\<lparr> success = False, message = Failed TokenNotSet, data = None \<rparr>, [])"
proof -
  have t: "GITLAB_TOKEN tokenlessEnv = None" by (simp add: tokenlessEnv_def demoEnv_def)
  have i: "fst (projectIdentity tokenlessEnv demoPath) = Inr demoInfo" by code_simp
  from C9_no_request_without_token[of tokenlessEnv demoPath None 12 None] t
    C9_no_request_without_token[of tokenlessEnv demoPath "Some 7" 12 None] i
  show ?thesis by auto
qed

section \<open>Properties of the pipeline lookup\<close>

lemma apiError_thrown:
  "apiError call r =
     (Inl (case bodyText r of Throws m \<Rightarrow> Raised m
                            | Returns errorText \<Rightarrow> ApiError call (status r) errorText), [])"
  by (cases "bodyText r") (simp_all add: apiError_def throw_def)

lemma targetPipelineId_empty:
  assumes "pipelineId = None \<or> pipelineId = Some 0"
    and "fetchPipelines env (latestPipelineUrl gitlabInfo) = Returns r"
    and "ok r" and "body r = Returns None \<or> body r = Returns (Some [])"
  shows "targetPipelineId env gitlabInfo pipelineId
           = (Inr None, [Fetch (latestPipelineUrl gitlabInfo)])"
  using assms(1,3,4)
  by (auto simp: targetPipelineId_def fetch_def assms(2) ret_def)

lemma targetPipelineId_failed:
  assumes "pipelineId = None \<or> pipelineId = Some 0"
    and "(\<exists>m. fetchPipelines env (latestPipelineUrl gitlabInfo) = Throws m)
       \<or> (\<exists>r. fetchPipelines env (latestPipelineUrl gitlabInfo) = Returns r
              \<and> (\<not> ok r \<or> (\<exists>m. body r = Throws m)))"
  shows "\<exists>e. targetPipelineId env gitlabInfo pipelineId
           = (Inl e, [Fetch (latestPipelineUrl gitlabInfo)])"
  using assms(2)
proof (elim disjE exE conjE)
  fix m assume m: "fetchPipelines env (latestPipelineUrl gitlabInfo) = Throws m"
  show ?thesis
    using assms(1) by (auto simp: targetPipelineId_def fetch_def m)
next
  fix r assume r: "fetchPipelines env (latestPipelineUrl gitlabInfo) = Returns r"
    and nok: "\<not> ok r"
  show ?thesis
    using assms(1) nok by (auto simp: targetPipelineId_def fetch_def r apiError_thrown)
next
  fix r m assume r: "fetchPipelines env (latestPipelineUrl gitlabInfo) = Returns r"
    and m: "body r = Throws m"
  show ?thesis
  proof (cases "ok r")
    case True
    then show ?thesis
      using assms(1) m by (auto simp: targetPipelineId_def fetch_def r)
  next
    case False
    show ?thesis
      using assms(1) False by (auto simp: targetPipelineId_def fetch_def r apiError_thrown)
  qed
qed

text \<open>
  C6. With no pipeline id given (absent, or the falsy 0), when the project resolves and
  the backend answers the pipeline-list request with an OK response whose body is an
  empty list (or \<^verbatim>\<open>null\<close>), \<open>getPipelineDetails\<close> and
  \<open>downloadPipelineArtifacts\<close> both return success with no data. When the same
  request fails (it throws, the status is not OK, or the body cannot be read), both
  return success false.
\<close>

theorem C6_empty_pipeline_list:
  assumes "fst (resolveProject env projectPath) = Inr gitlabInfo"
    and "pipelineId = None \<or> pipelineId = Some 0"
  shows "((\<exists>r. fetchPipelines env (latestPipelineUrl gitlabInfo) = Returns r \<and> ok r
              \<and> (body r = Returns None \<or> body r = Returns (Some [])))
          \<longrightarrow> fst (getPipelineDetails env projectPath pipelineId)
                = \<lparr> success = True, message = NoPipelinesFound, data = None \<rparr>
            \<and> fst (downloadPipelineArtifacts env projectPath pipelineId downloadPath)
                = \<lparr> success = True, message = NoPipelinesFound, data = None \<rparr>)
       \<and> (((\<exists>m. fetchPipelines env (latestPipelineUrl gitlabInfo) = Throws m)
            \<or> (\<exists>r. fetchPipelines env (latestPipelineUrl gitlabInfo) = Returns r
                  \<and> (\<not> ok r \<or> (\<exists>m. body r = Throws m))))
          \<longrightarrow> \<not> success (fst (getPipelineDetails env projectPath pipelineId))
            \<and> \<not> success (fst (downloadPipelineArtifacts env projectPath pipelineId downloadPath)))"
proof (intro conjI impI)
  assume "\<exists>r. fetchPipelines env (latestPipelineUrl gitlabInfo) = Returns r \<and> ok r
              \<and> (body r = Returns None \<or> body r = Returns (Some []))"
  then obtain r where "fetchPipelines env (latestPipelineUrl gitlabInfo) = Returns r" "ok r"
    "body r = Returns None \<or> body r = Returns (Some [])" by blast
  from targetPipelineId_empty[OF assms(2) this]
  have t: "targetPipelineId env gitlabInfo pipelineId
           = (Inr None, [Fetch (latestPipelineUrl gitlabInfo)])" .
  show "fst (getPipelineDetails env projectPath pipelineId)
                = \<lparr> success = True, message = NoPipelinesFound, data = None \<rparr>"
    by (simp add: getPipelineDetails_def resolveProject_resolved[OF assms(1)] t ret_def
        noPipelines_def)
  show "fst (downloadPipelineArtifacts env projectPath pipelineId downloadPath)
                = \<lparr> success = True, message = NoPipelinesFound, data = None \<rparr>"
    by (simp add: downloadPipelineArtifacts_def resolveProject_resolved[OF assms(1)] t ret_def
        noPipelines_def)
next
  assume "(\<exists>m. fetchPipelines env (latestPipelineUrl gitlabInfo) = Throws m)
            \<or> (\<exists>r. fetchPipelines env (latestPipelineUrl gitlabInfo) = Returns r
                  \<and> (\<not> ok r \<or> (\<exists>m. body r = Throws m)))"
  from targetPipelineId_failed[OF assms(2) this] obtain e
    where t: "targetPipelineId env gitlabInfo pipelineId
           = (Inl e, [Fetch (latestPipelineUrl gitlabInfo)])" by blast
  show "\<not> success (fst (getPipelineDetails env projectPath pipelineId))"
    by (simp add: getPipelineDetails_def resolveProject_resolved[OF assms(1)] t)
  show "\<not> success (fst (downloadPipelineArtifacts env projectPath pipelineId downloadPath))"
    by (simp add: downloadPipelineArtifacts_def resolveProject_resolved[OF assms(1)] t)
qed

theorem C6_empty_pipeline_list_witness:
  "fst (resolveProject emptyPipelinesEnv demoPath) = Inr demoInfo
   \<and> fetchPipelines emptyPipelinesEnv (latestPipelineUrl demoInfo) = Returns (okResponse ''[]'' (Some []))
   \<and> fst (getPipelineDetails emptyPipelinesEnv demoPath None)
        = \<lparr> success = True, message = NoPipelinesFound, data = None \<rparr>
   \<and> fst (downloadPipelineArtifacts emptyPipelinesEnv demoPath None None)
        = \<lparr> success = True, message = NoPipelinesFound, data = None \<rparr>"
proof -
  have r: "fst (resolveProject emptyPipelinesEnv demoPath) = Inr demoInfo" by code_simp
  have f: "fetchPipelines emptyPipelinesEnv (latestPipelineUrl demoInfo)
             = Returns (okResponse ''[]'' (Some []))"
    by (simp add: emptyPipelinesEnv_def)
  have b: "ok (okResponse ''[]'' (Some [] :: pipeline list option))"
    "body (okResponse ''[]'' (Some [] :: pipeline list option)) = Returns (Some [])"
    by (simp_all add: okResponse_def)
  from C6_empty_pipeline_list[OF r, of None None] r f b
  show ?thesis by auto
qed

section \<open>Properties of the pipeline aggregator\<close>

lemma fst_ret [simp]: "fst (ret x) = Inr x"
  by (simp add: ret_def)

lemma snd_ret [simp]: "snd (ret x) = []"
  by (simp add: ret_def)

lemma trace_extend [simp]: "trace (job.extend job \<lparr> trace = log \<rparr>) = log"
  by (simp add: job.defs)

lemma jobWithTrace_eq:
  "jobWithTrace env gitlabInfo job =
     (Inr (job.extend job \<lparr> trace = expectedTrace env gitlabInfo job \<rparr>),
      [Fetch (traceUrl gitlabInfo (job_id job))])"
proof (cases "fetchTrace env (traceUrl gitlabInfo (job_id job))")
  case (Throws m)
  then show ?thesis
    by (simp add: jobWithTrace_def expectedTrace_def fetch_def ret_def)
next
  case (Returns r)
  show ?thesis
  proof (cases "ok r")
    case False
    then show ?thesis
      by (simp add: jobWithTrace_def expectedTrace_def fetch_def Returns ret_def)
  next
    case True
    then show ?thesis
      by (cases "bodyText r")
         (simp_all add: jobWithTrace_def expectedTrace_def fetch_def Returns ret_def)
  qed
qed

lemma promiseAll_map:
  assumes "\<And>x. f x = (Inr (g x), [h x])"
  shows "promiseAll (map f xs) = (Inr (map g xs), map h xs)"
  by (induction xs) (simp_all add: assms ret_def)

lemma traces_of_jobs:
  "promiseAll (map (jobWithTrace env gitlabInfo) listed) =
     (Inr (map (\<lambda>job. job.extend job \<lparr> trace = expectedTrace env gitlabInfo job \<rparr>) listed),
      map (\<lambda>job. Fetch (traceUrl gitlabInfo (job_id job))) listed)"
  by (rule promiseAll_map) (rule jobWithTrace_eq)

lemma getPipelineDetails_composed:
  assumes r: "fst (resolveProject env projectPath) = Inr gitlabInfo"
    and t: "fst (targetPipelineId env gitlabInfo pipelineId) = Inr (Some targetId)"
    and p: "fetchPipeline env (pipelineUrl gitlabInfo targetId) = Returns pipelineResponse"
      "ok pipelineResponse" "body pipelineResponse = Returns pipeline"
    and j: "fetchJobs env (jobsUrl gitlabInfo targetId) = Returns jobsResponse"
      "ok jobsResponse \<longrightarrow> body jobsResponse = Returns listed"
    and a: "fetchArtifacts env (artifactsUrl gitlabInfo targetId) = Returns artifactsResponse"
      "ok artifactsResponse \<longrightarrow> body artifactsResponse = Returns found"
  shows "getPipelineDetails env projectPath pipelineId =
     (\<lparr> success = True, message = PipelineDetailsObtained,
        data = Some \<lparr> details_pipeline = (pipeline, projectOf gitlabInfo),
                      details_jobs =
                        map (\<lambda>job. job.extend job \<lparr> trace = expectedTrace env gitlabInfo job \<rparr>)
                          (if ok jobsResponse then listed else []),
                      details_artifacts = (if ok artifactsResponse then found else []) \<rparr> \<rparr>,
      snd (targetPipelineId env gitlabInfo pipelineId)
      @ [Fetch (pipelineUrl gitlabInfo targetId), Fetch (jobsUrl gitlabInfo targetId),
         Fetch (artifactsUrl gitlabInfo targetId)]
      @ map (\<lambda>job. Fetch (traceUrl gitlabInfo (job_id job)))
          (if ok jobsResponse then listed else []))"
proof -
  obtain evs0 where t': "targetPipelineId env gitlabInfo pipelineId = (Inr (Some targetId), evs0)"
    using t by (cases "targetPipelineId env gitlabInfo pipelineId") simp
  have jobsStep: "(if ok jobsResponse then raised (await (body jobsResponse)) else ret [])
      = (Inr (if ok jobsResponse then listed else []), [])"
    using j(2) by (simp add: ret_def)
  have artifactsStep:
    "(if ok artifactsResponse then raised (await (body artifactsResponse)) else ret [])
      = (Inr (if ok artifactsResponse then found else []), [])"
    using a(2) by (simp add: ret_def)
  show ?thesis
    by (simp add: getPipelineDetails_def resolveProject_resolved[OF r] t'
        fetch_def p j(1) a(1) jobsStep artifactsStep traces_of_jobs)
qed

lemma targetPipelineId_events:
  "set (snd (targetPipelineId env gitlabInfo pipelineId)) \<subseteq> {Fetch (latestPipelineUrl gitlabInfo)}"
proof (cases "pipelineId \<noteq> None \<and> pipelineId \<noteq> Some 0")
  case True
  then show ?thesis by (simp add: targetPipelineId_def)
next
  case False
  show ?thesis
  proof (cases "fetchPipelines env (latestPipelineUrl gitlabInfo)")
    case (Throws m)
    then show ?thesis using False by (simp add: targetPipelineId_def fetch_def)
  next
    case (Returns r)
    show ?thesis
    proof (cases "ok r")
      case nok: False
      then show ?thesis
        using False by (simp add: targetPipelineId_def fetch_def Returns apiError_thrown)
    next
      case True
      then show ?thesis
        using False
        by (cases "body r")
           (simp_all add: targetPipelineId_def fetch_def Returns split: option.splits list.splits)
    qed
  qed
qed

text \<open>
  C1, as amended. When the project resolves, the pipeline is fetched and the job listing
  succeeds (and the artifact-metadata request does not throw), the operation returns
  success true and every listed job comes back, in order, with the trace that its own
  trace request determines: the log text on an OK answer, the placeholder sentence
  followed by the error message when the request or the reading of its body throws,
  and the empty string when the status is not OK. One job's trace request has no
  influence on another job's trace, and every job's trace is requested.
\<close>

theorem C1_trace_fault_isolation:
  assumes "fst (resolveProject env projectPath) = Inr gitlabInfo"
    and "fst (targetPipelineId env gitlabInfo pipelineId) = Inr (Some targetId)"
    and "fetchPipeline env (pipelineUrl gitlabInfo targetId) = Returns pipelineResponse"
    and "ok pipelineResponse" and "body pipelineResponse = Returns pipeline"
    and "fetchJobs env (jobsUrl gitlabInfo targetId) = Returns jobsResponse"
    and "ok jobsResponse" and "body jobsResponse = Returns listed"
    and "fetchArtifacts env (artifactsUrl gitlabInfo targetId) = Returns artifactsResponse"
    and "ok artifactsResponse \<longrightarrow> body artifactsResponse = Returns found"
  shows "success (fst (getPipelineDetails env projectPath pipelineId))
     \<and> (\<exists>d. data (fst (getPipelineDetails env projectPath pipelineId)) = Some d
            \<and> details_jobs d =
                map (\<lambda>job. job.extend job \<lparr> trace = expectedTrace env gitlabInfo job \<rparr>) listed)
     \<and> (\<forall>job \<in> set listed.
            Fetch (traceUrl gitlabInfo (job_id job))
              \<in> set (snd (getPipelineDetails env projectPath pipelineId)))"
proof -
  have j: "ok jobsResponse \<longrightarrow> body jobsResponse = Returns listed"
    using assms(8) by simp
  show ?thesis
    using assms(7)
    by (simp add: getPipelineDetails_composed[OF assms(1-6) j assms(9,10)])
qed

theorem C1_trace_fault_isolation_witness:
  "fst (resolveProject traceThrowsEnv demoPath) = Inr demoInfo
   \<and> fst (targetPipelineId traceThrowsEnv demoInfo None) = Inr (Some 7)
   \<and> fetchPipeline traceThrowsEnv (pipelineUrl demoInfo 7) = Returns (okResponse ''pipeline'' demoPipeline)
   \<and> fetchJobs traceThrowsEnv (jobsUrl demoInfo 7) = Returns (okResponse ''[jobs]'' demoJobs)
   \<and> fetchTrace traceThrowsEnv (traceUrl demoInfo 12) = Throws ''socket hang up''
   \<and> success (fst (getPipelineDetails traceThrowsEnv demoPath None))
   \<and> map_option (map trace \<circ> details_jobs) (data (fst (getPipelineDetails traceThrowsEnv demoPath None)))
        = Some [''build ok'', traceErrorPrefix @ ''socket hang up'', ''packaged'']"
proof -
  have r: "fst (resolveProject traceThrowsEnv demoPath) = Inr demoInfo" by code_simp
  have t: "fst (targetPipelineId traceThrowsEnv demoInfo None) = Inr (Some 7)" by code_simp
  have p: "fetchPipeline traceThrowsEnv (pipelineUrl demoInfo 7)
      = Returns (okResponse ''pipeline'' demoPipeline)"
    by (simp add: traceThrowsEnv_def demoEnv_def)
  have j: "fetchJobs traceThrowsEnv (jobsUrl demoInfo 7) = Returns (okResponse ''[jobs]'' demoJobs)"
    by (simp add: traceThrowsEnv_def demoEnv_def)
  have a: "fetchArtifacts traceThrowsEnv (artifactsUrl demoInfo 7)
      = Returns (okResponse ''[artifact]''
          [[(''file_type'', ''archive''), (''filename'', ''artifacts.zip'')]])"
    by (simp add: traceThrowsEnv_def demoEnv_def)
  have f: "fetchTrace traceThrowsEnv (traceUrl demoInfo 12) = Throws ''socket hang up''"
    by (simp add: traceThrowsEnv_def)
  have e: "map (expectedTrace traceThrowsEnv demoInfo) demoJobs
      = [''build ok'', traceErrorPrefix @ ''socket hang up'', ''packaged'']"
    by code_simp
  from C1_trace_fault_isolation[OF r t p _ _ j _ _ a, of demoPipeline demoJobs
      "[[(''file_type'', ''archive''), (''filename'', ''artifacts.zip'')]]"]
  obtain d where s: "success (fst (getPipelineDetails traceThrowsEnv demoPath None))"
    and d: "data (fst (getPipelineDetails traceThrowsEnv demoPath None)) = Some d"
    and l: "details_jobs d =
       map (\<lambda>job. job.extend job \<lparr> trace = expectedTrace traceThrowsEnv demoInfo job \<rparr>) demoJobs"
    by (auto simp: okResponse_def)
  have "map trace (details_jobs d) = map (expectedTrace traceThrowsEnv demoInfo) demoJobs"
    by (simp add: l comp_def)
  then have "map_option (map trace \<circ> details_jobs)
      (data (fst (getPipelineDetails traceThrowsEnv demoPath None)))
        = Some [''build ok'', traceErrorPrefix @ ''socket hang up'', ''packaged'']"
    by (simp add: d e)
  then show ?thesis
    using r t p j f s by blast
qed

text \<open>
  The claim as stated fails for a trace request answered with a status that is not OK:
  the request for job 12 fails with 404, and the trace attached to job 12 is the empty
  string, which carries no diagnostic.
\<close>

theorem C1_status_failure_leaves_empty_trace:
  "traceFetchFails traceStatusEnv demoInfo (demoJob 12 ''unit test'')
   \<and> map_option (map trace \<circ> details_jobs)
         (data (fst (getPipelineDetails traceStatusEnv demoPath None)))
        = Some [''build ok'', [], ''packaged'']
   \<and> \<not> prefix traceErrorPrefix []"
  by code_simp

text \<open>
  C7, as amended. After the pipeline resource is fetched, a job-listing request or an
  artifact-metadata request that is answered with a status that is not OK is replaced
  by the empty list, and the operation returns success true with the composed
  pipeline, jobs and artifacts. This is so when neither request throws and every OK
  answer has a readable body.
\<close>

theorem C7_status_failure_gives_empty_list:
  assumes "fst (resolveProject env projectPath) = Inr gitlabInfo"
    and "fst (targetPipelineId env gitlabInfo pipelineId) = Inr (Some targetId)"
    and "fetchPipeline env (pipelineUrl gitlabInfo targetId) = Returns pipelineResponse"
    and "ok pipelineResponse" and "body pipelineResponse = Returns pipeline"
    and "fetchJobs env (jobsUrl gitlabInfo targetId) = Returns jobsResponse"
    and "ok jobsResponse \<longrightarrow> body jobsResponse = Returns listed"
    and "fetchArtifacts env (artifactsUrl gitlabInfo targetId) = Returns artifactsResponse"
    and "ok artifactsResponse \<longrightarrow> body artifactsResponse = Returns found"
  shows "fst (getPipelineDetails env projectPath pipelineId) =
     \<lparr> success = True, message = PipelineDetailsObtained,
       data = Some \<lparr> details_pipeline = (pipeline, projectOf gitlabInfo),
                     details_jobs =
                       (if ok jobsResponse
                        then map (\<lambda>job. job.extend job \<lparr> trace = expectedTrace env gitlabInfo job \<rparr>)
                               listed
                        else []),
                     details_artifacts = (if ok artifactsResponse then found else []) \<rparr> \<rparr>"
  by (simp add: getPipelineDetails_composed[OF assms])

theorem C7_status_failure_gives_empty_list_witness:
  "fst (resolveProject jobsStatusEnv demoPath) = Inr demoInfo
   \<and> fst (targetPipelineId jobsStatusEnv demoInfo None) = Inr (Some 7)
   \<and> fetchPipeline jobsStatusEnv (pipelineUrl demoInfo 7) = Returns (okResponse ''pipeline'' demoPipeline)
   \<and> fetchJobs jobsStatusEnv (jobsUrl demoInfo 7) = Returns (errorResponse 500 ''Internal Server Error'')
   \<and> fetchArtifacts jobsStatusEnv (artifactsUrl demoInfo 7)
        = Returns (okResponse ''[artifact]''
            [[(''file_type'', ''archive''), (''filename'', ''artifacts.zip'')]])
   \<and> fst (getPipelineDetails jobsStatusEnv demoPath None) =
       \<lparr> success = True, message = PipelineDetailsObtained,
         data = Some \<lparr> details_pipeline = (demoPipeline, projectOf demoInfo),
                       details_jobs = [],
                       details_artifacts =
                         [[(''file_type'', ''archive''), (''filename'', ''artifacts.zip'')]] \<rparr> \<rparr>"
proof -
  have r: "fst (resolveProject jobsStatusEnv demoPath) = Inr demoInfo" by code_simp
  have t: "fst (targetPipelineId jobsStatusEnv demoInfo None) = Inr (Some 7)" by code_simp
  have p: "fetchPipeline jobsStatusEnv (pipelineUrl demoInfo 7)
      = Returns (okResponse ''pipeline'' demoPipeline)"
    by (simp add: jobsStatusEnv_def demoEnv_def)
  have j: "fetchJobs jobsStatusEnv (jobsUrl demoInfo 7)
      = Returns (errorResponse 500 ''Internal Server Error'')"
    by (simp add: jobsStatusEnv_def)
  have a: "fetchArtifacts jobsStatusEnv (artifactsUrl demoInfo 7)
      = Returns (okResponse ''[artifact]''
          [[(''file_type'', ''archive''), (''filename'', ''artifacts.zip'')]])"
    by (simp add: jobsStatusEnv_def demoEnv_def)
  from C7_status_failure_gives_empty_list[OF r t p _ _ j _ a, of demoPipeline "[]"
      "[[(''file_type'', ''archive''), (''filename'', ''artifacts.zip'')]]"]
  have "fst (getPipelineDetails jobsStatusEnv demoPath None) =
       \<lparr> success = True, message = PipelineDetailsObtained,
         data = Some \<lparr> details_pipeline = (demoPipeline, projectOf demoInfo),
                       details_jobs = [],
                       details_artifacts =
                         [[(''file_type'', ''archive''), (''filename'', ''artifacts.zip'')]] \<rparr> \<rparr>"
    by (simp add: okResponse_def errorResponse_def)
  then show ?thesis
    using r t p j a by blast
qed

text \<open>
  The claim as stated fails when the job-listing request throws: the pipeline has been
  fetched, the request for its jobs is reset by the peer, and the whole operation
  returns success false with no data.
\<close>

theorem C7_thrown_job_listing_aborts:
  "fetchPipeline jobsThrowEnv (pipelineUrl demoInfo 7) = Returns (okResponse ''pipeline'' demoPipeline)
   \<and> fetchJobs jobsThrowEnv (jobsUrl demoInfo 7) = Throws ''ECONNRESET''
   \<and> getPipelineDetails jobsThrowEnv demoPath None =
       (\<lparr> success = False, message = Failed (Raised ''ECONNRESET''), data = None \<rparr>,
        [Fetch (latestPipelineUrl demoInfo), Fetch (pipelineUrl demoInfo 7),
         Fetch (jobsUrl demoInfo 7)])"
  by code_simp

text \<open>
  C10. In \<open>downloadPipelineArtifacts\<close>, a job-listing answer with a status that is
  not OK makes the whole operation fail with no data; the only requests issued are the
  lookup of the latest pipeline (when no id was given) and the job listing itself, so
  nothing is downloaded, no directory is created and no file is written. In the same
  situation \<open>getPipelineDetails\<close> goes on with an empty job list and succeeds, provided
  the pipeline itself is fetched and the artifact-metadata request does not throw.
\<close>

theorem C10_job_listing_status_aborts_download:
  assumes "fst (resolveProject env projectPath) = Inr gitlabInfo"
    and "fst (targetPipelineId env gitlabInfo pipelineId) = Inr (Some targetId)"
    and "fetchJobs env (jobsUrl gitlabInfo targetId) = Returns jobsResponse"
    and "\<not> ok jobsResponse"
  shows "\<not> success (fst (downloadPipelineArtifacts env projectPath pipelineId downloadPath))
     \<and> data (fst (downloadPipelineArtifacts env projectPath pipelineId downloadPath)) = None
     \<and> set (snd (downloadPipelineArtifacts env projectPath pipelineId downloadPath))
          \<subseteq> {Fetch (latestPipelineUrl gitlabInfo), Fetch (jobsUrl gitlabInfo targetId)}
     \<and> ((\<exists>pipelineResponse pipeline artifactsResponse found.
            fetchPipeline env (pipelineUrl gitlabInfo targetId) = Returns pipelineResponse
            \<and> ok pipelineResponse \<and> body pipelineResponse = Returns pipeline
            \<and> fetchArtifacts env (artifactsUrl gitlabInfo targetId) = Returns artifactsResponse
            \<and> (ok artifactsResponse \<longrightarrow> body artifactsResponse = Returns found))
          \<longrightarrow> success (fst (getPipelineDetails env projectPath pipelineId))
            \<and> (\<exists>d. data (fst (getPipelineDetails env projectPath pipelineId)) = Some d
                   \<and> details_jobs d = []))"
proof (intro conjI impI)
  obtain evs0 where t: "targetPipelineId env gitlabInfo pipelineId = (Inr (Some targetId), evs0)"
    using assms(2) by (cases "targetPipelineId env gitlabInfo pipelineId") simp
  have evs0: "set evs0 \<subseteq> {Fetch (latestPipelineUrl gitlabInfo)}"
    using targetPipelineId_events[of env gitlabInfo pipelineId] by (simp add: t)
  have d: "downloadPipelineArtifacts env projectPath pipelineId downloadPath =
      (\<lparr> success = False,
         message = Failed (case bodyText jobsResponse of
                     Throws m \<Rightarrow> Raised m
                   | Returns errorText \<Rightarrow> ApiError PipelineJobsCall (status jobsResponse) errorText),
         data = None \<rparr>,
       evs0 @ [Fetch (jobsUrl gitlabInfo targetId)])"
    by (simp add: downloadPipelineArtifacts_def resolveProject_resolved[OF assms(1)] t
        fetch_def assms(3,4) apiError_thrown)
  show "\<not> success (fst (downloadPipelineArtifacts env projectPath pipelineId downloadPath))"
    by (simp add: d)
  show "data (fst (downloadPipelineArtifacts env projectPath pipelineId downloadPath)) = None"
    by (simp add: d)
  show "set (snd (downloadPipelineArtifacts env projectPath pipelineId downloadPath))
          \<subseteq> {Fetch (latestPipelineUrl gitlabInfo), Fetch (jobsUrl gitlabInfo targetId)}"
    using evs0 by (auto simp: d)
next
  assume "\<exists>pipelineResponse pipeline artifactsResponse found.
            fetchPipeline env (pipelineUrl gitlabInfo targetId) = Returns pipelineResponse
            \<and> ok pipelineResponse \<and> body pipelineResponse = Returns pipeline
            \<and> fetchArtifacts env (artifactsUrl gitlabInfo targetId) = Returns artifactsResponse
            \<and> (ok artifactsResponse \<longrightarrow> body artifactsResponse = Returns found)"
  then obtain pipelineResponse pipeline artifactsResponse found
    where p: "fetchPipeline env (pipelineUrl gitlabInfo targetId) = Returns pipelineResponse"
      "ok pipelineResponse" "body pipelineResponse = Returns pipeline"
    and a: "fetchArtifacts env (artifactsUrl gitlabInfo targetId) = Returns artifactsResponse"
      "ok artifactsResponse \<longrightarrow> body artifactsResponse = Returns found"
    by blast
  have j: "ok jobsResponse \<longrightarrow> body jobsResponse = Returns []"
    using assms(4) by simp
  note g = getPipelineDetails_composed[OF assms(1,2) p assms(3) j a]
  show "success (fst (getPipelineDetails env projectPath pipelineId))"
    by (simp add: g)
  show "\<exists>d. data (fst (getPipelineDetails env projectPath pipelineId)) = Some d
                   \<and> details_jobs d = []"
    by (simp add: g)
qed

theorem C10_job_listing_status_aborts_download_witness:
  "fst (resolveProject jobsStatusEnv demoPath) = Inr demoInfo
   \<and> fst (targetPipelineId jobsStatusEnv demoInfo None) = Inr (Some 7)
   \<and> fetchJobs jobsStatusEnv (jobsUrl demoInfo 7) = Returns (errorResponse 500 ''Internal Server Error'')
   \<and> \<not> ok (errorResponse 500 ''Internal Server Error'' :: job list response)
   \<and> \<not> success (fst (downloadPipelineArtifacts jobsStatusEnv demoPath None None))
   \<and> data (fst (downloadPipelineArtifacts jobsStatusEnv demoPath None None)) = None
   \<and> set (snd (downloadPipelineArtifacts jobsStatusEnv demoPath None None))
        \<subseteq> {Fetch (latestPipelineUrl demoInfo), Fetch (jobsUrl demoInfo 7)}
   \<and> success (fst (getPipelineDetails jobsStatusEnv demoPath None))"
proof -
  have r: "fst (resolveProject jobsStatusEnv demoPath) = Inr demoInfo" by code_simp
  have t: "fst (targetPipelineId jobsStatusEnv demoInfo None) = Inr (Some 7)" by code_simp
  have j: "fetchJobs jobsStatusEnv (jobsUrl demoInfo 7)
      = Returns (errorResponse 500 ''Internal Server Error'')"
    by (simp add: jobsStatusEnv_def)
  have n: "\<not> ok (errorResponse 500 ''Internal Server Error'' :: job list response)"
    by (simp add: errorResponse_def)
  have p: "fetchPipeline jobsStatusEnv (pipelineUrl demoInfo 7)
      = Returns (okResponse ''pipeline'' demoPipeline)"
    by (simp add: jobsStatusEnv_def demoEnv_def)
  have a: "fetchArtifacts jobsStatusEnv (artifactsUrl demoInfo 7)
      = Returns (okResponse ''[artifact]''
          [[(''file_type'', ''archive''), (''filename'', ''artifacts.zip'')]])"
    by (simp add: jobsStatusEnv_def demoEnv_def)
  have e: "\<exists>pipelineResponse pipeline artifactsResponse found.
      fetchPipeline jobsStatusEnv (pipelineUrl demoInfo 7) = Returns pipelineResponse
      \<and> ok pipelineResponse \<and> body pipelineResponse = Returns pipeline
      \<and> fetchArtifacts jobsStatusEnv (artifactsUrl demoInfo 7) = Returns artifactsResponse
      \<and> (ok artifactsResponse \<longrightarrow> body artifactsResponse = Returns found)"
    unfolding p a by (simp add: okResponse_def)
  from C10_job_listing_status_aborts_download[OF r t j n, of None] e r t j n
  show ?thesis by blast
qed

section \<open>Properties of the artifact download manager\<close>

lemma downloadOne_eq:
  "downloadOne env gitlabInfo target job (files, results) =
     (Inr (files @ (if downloadSucceeds env gitlabInfo target job
                    then [pipelineArchiveName job] else []),
           results @ [downloadResultFor env gitlabInfo target job]),
      downloadEventsFor env gitlabInfo target job)"
proof (cases "fetchArchive env (jobArtifactsUrl gitlabInfo (job_id job))")
  case (Throws m)
  then show ?thesis
    by (simp add: downloadOne_def downloadSucceeds_def downloadResultFor_def
        downloadEventsFor_def failedDownload_def fetch_def)
next
  case (Returns r)
  show ?thesis
  proof (cases "ok r")
    case False
    then show ?thesis
      by (simp add: downloadOne_def downloadSucceeds_def downloadResultFor_def
          downloadEventsFor_def failedDownload_def fetch_def Returns)
  next
    case True
    show ?thesis
    proof (cases "body r")
      case (Throws m)
      then show ?thesis
        using True
        by (simp add: downloadOne_def downloadSucceeds_def downloadResultFor_def
            downloadEventsFor_def failedDownload_def fetch_def Returns)
    next
      case buf: (Returns buf)
      show ?thesis
        using True
        by (cases "writeFileSync env (join target (pipelineArchiveName job)) buf")
           (simp_all add: downloadOne_def downloadSucceeds_def downloadResultFor_def
            downloadEventsFor_def failedDownload_def fetch_def Returns buf writeFile_def
            Let_def ret_def)
    qed
  qed
qed

lemma downloadEach_eq:
  "downloadEach env gitlabInfo target js (files, results) =
     (Inr (files @ map pipelineArchiveName (filter (downloadSucceeds env gitlabInfo target) js),
           results @ map (downloadResultFor env gitlabInfo target) js),
      concat (map (downloadEventsFor env gitlabInfo target) js))"
proof (induction js arbitrary: files results)
  case Nil
  show ?case by (simp add: ret_def)
next
  case (Cons job rest)
  show ?case
    by (simp add: downloadOne_eq Cons.IH)
qed

lemma downloadResultFor_job:
  "result_jobId (downloadResultFor env gitlabInfo target job) = job_id job"
  "result_jobName (downloadResultFor env gitlabInfo target job) = job_name job"
  by (simp_all add: downloadResultFor_def failedDownload_def split: outcome.splits)

lemma downloadResultFor_success:
  "result_success (downloadResultFor env gitlabInfo target job)
     = downloadSucceeds env gitlabInfo target job"
  by (auto simp: downloadResultFor_def downloadSucceeds_def failedDownload_def
      split: outcome.splits)

lemma downloadResultFor_error:
  "\<not> downloadSucceeds env gitlabInfo target job
     \<Longrightarrow> result_error (downloadResultFor env gitlabInfo target job) \<noteq> None"
  by (auto simp: downloadResultFor_def downloadSucceeds_def failedDownload_def
      split: outcome.splits)

lemma downloadEventsFor_fetch:
  "Fetch (jobArtifactsUrl gitlabInfo (job_id job)) \<in> set (downloadEventsFor env gitlabInfo target job)"
  by (simp add: downloadEventsFor_def)

lemma single_failure_count:
  assumes "K < length xs" and "\<forall>i < length xs. P (xs ! i) \<longleftrightarrow> i = K"
  shows "length (filter P xs) = 1"
proof -
  have "{i. i < length xs \<and> P (xs ! i)} = {K}"
    using assms by auto
  then show ?thesis
    by (simp add: length_filter_conv_card)
qed

lemma downloadPipelineArtifacts_composed:
  assumes r: "fst (resolveProject env projectPath) = Inr gitlabInfo"
    and t: "fst (targetPipelineId env gitlabInfo pipelineId) = Inr (Some targetId)"
    and j: "fetchJobs env (jobsUrl gitlabInfo targetId) = Returns jobsResponse"
      "ok jobsResponse" "body jobsResponse = Returns listed"
    and w: "filter hasArtifactsFile listed \<noteq> []"
    and d: "target = (case downloadPath of
                       Some given \<Rightarrow> given
                     | None \<Rightarrow> join (join projectPath ''artifacts'') (''pipeline_'' @ showNat targetId))"
      "fst (ensureDirectory env target) = Inr ()"
  shows "downloadPipelineArtifacts env projectPath pipelineId downloadPath =
     (\<lparr> success = True,
        message = PipelineArtifactsDownloaded
          (length (filter result_success
             (map (downloadResultFor env gitlabInfo target) (filter hasArtifactsFile listed))))
          (length (filter (\<lambda>r. \<not> result_success r)
             (map (downloadResultFor env gitlabInfo target) (filter hasArtifactsFile listed)))),
        data = Some \<lparr> dl_pipelineId = targetId, dl_jobs = listed,
                      dl_jobsWithArtifacts = Some (filter hasArtifactsFile listed),
                      dl_downloadedFiles =
                        map pipelineArchiveName
                          (filter (downloadSucceeds env gitlabInfo target)
                             (filter hasArtifactsFile listed)),
                      dl_downloadPath = Some target,
                      dl_downloadResults =
                        Some (map (downloadResultFor env gitlabInfo target)
                                (filter hasArtifactsFile listed)) \<rparr> \<rparr>,
      snd (targetPipelineId env gitlabInfo pipelineId)
      @ [Fetch (jobsUrl gitlabInfo targetId)]
      @ snd (ensureDirectory env target)
      @ concat (map (downloadEventsFor env gitlabInfo target) (filter hasArtifactsFile listed)))"
proof -
  obtain evs0 where t': "targetPipelineId env gitlabInfo pipelineId = (Inr (Some targetId), evs0)"
    using t by (cases "targetPipelineId env gitlabInfo pipelineId") simp
  obtain evs1 where d': "ensureDirectory env target = (Inr (), evs1)"
    using d(2) by (cases "ensureDirectory env target") simp
  show ?thesis
    using w
    by (simp add: downloadPipelineArtifacts_def resolveProject_resolved[OF r] t'
        fetch_def j Let_def d' downloadEach_eq flip: d(1))
qed

text \<open>
  C5. Let the job listing hold \<open>N\<close> jobs with artifact-file metadata, let the target
  directory exist or be created, and let the download fail for the job at position
  \<open>K\<close> (its request throws, its status is not OK, or its archive cannot be read or
  written) and succeed for every other one. Then the operation succeeds and reports
  \<open>N\<close> results in the order of the listing, each for the job at its position; the
  result at \<open>K\<close> is the only one with success false and it carries an error
  description; and the archive of every one of the \<open>N\<close> jobs is requested, those
  after \<open>K\<close> included.
\<close>

theorem C5_download_failure_isolated:
  assumes "fst (resolveProject env projectPath) = Inr gitlabInfo"
    and "fst (targetPipelineId env gitlabInfo pipelineId) = Inr (Some targetId)"
    and "fetchJobs env (jobsUrl gitlabInfo targetId) = Returns jobsResponse"
    and "ok jobsResponse" and "body jobsResponse = Returns listed"
    and "withArtifacts = filter hasArtifactsFile listed"
    and "target = (case downloadPath of
                     Some given \<Rightarrow> given
                   | None \<Rightarrow> join (join projectPath ''artifacts'') (''pipeline_'' @ showNat targetId))"
    and "fst (ensureDirectory env target) = Inr ()"
    and "K < length withArtifacts"
    and "\<forall>i < length withArtifacts.
           downloadSucceeds env gitlabInfo target (withArtifacts ! i) \<longleftrightarrow> i \<noteq> K"
  shows "success (fst (downloadPipelineArtifacts env projectPath pipelineId downloadPath))
     \<and> (\<exists>d results.
           data (fst (downloadPipelineArtifacts env projectPath pipelineId downloadPath)) = Some d
         \<and> dl_downloadResults d = Some results
         \<and> length results = length withArtifacts
         \<and> (\<forall>i < length withArtifacts.
               result_jobId (results ! i) = job_id (withArtifacts ! i)
             \<and> result_jobName (results ! i) = job_name (withArtifacts ! i)
             \<and> (result_success (results ! i) \<longleftrightarrow> i \<noteq> K))
         \<and> result_error (results ! K) \<noteq> None
         \<and> length (filter (\<lambda>r. \<not> result_success r) results) = 1)
     \<and> (\<forall>i < length withArtifacts.
           Fetch (jobArtifactsUrl gitlabInfo (job_id (withArtifacts ! i)))
             \<in> set (snd (downloadPipelineArtifacts env projectPath pipelineId downloadPath)))"
proof -
  define results where "results = map (downloadResultFor env gitlabInfo target) withArtifacts"
  have ne: "filter hasArtifactsFile listed \<noteq> []"
    using assms(6,9) by auto
  note c = downloadPipelineArtifacts_composed[OF assms(1-5) ne assms(7,8), folded assms(6)]
  have len: "length results = length withArtifacts"
    by (simp add: results_def)
  have each: "\<forall>i < length withArtifacts.
               result_jobId (results ! i) = job_id (withArtifacts ! i)
             \<and> result_jobName (results ! i) = job_name (withArtifacts ! i)
             \<and> (result_success (results ! i) \<longleftrightarrow> i \<noteq> K)"
    using assms(10)
    by (simp add: results_def downloadResultFor_job downloadResultFor_success)
  have "\<not> downloadSucceeds env gitlabInfo target (withArtifacts ! K)"
    using assms(9,10) by blast
  then have err: "result_error (results ! K) \<noteq> None"
    using assms(9) by (simp add: results_def downloadResultFor_error)
  have "\<forall>i < length results. (\<not> result_success (results ! i)) \<longleftrightarrow> i = K"
    using each len by simp
  then have one: "length (filter (\<lambda>r. \<not> result_success r) results) = 1"
    using assms(9) len by (intro single_failure_count[of K]) simp_all
  have fetched: "\<forall>i < length withArtifacts.
           Fetch (jobArtifactsUrl gitlabInfo (job_id (withArtifacts ! i)))
             \<in> set (snd (downloadPipelineArtifacts env projectPath pipelineId downloadPath))"
  proof (intro allI impI)
    fix i assume i: "i < length withArtifacts"
    then have "withArtifacts ! i \<in> set withArtifacts" by simp
    then have "Fetch (jobArtifactsUrl gitlabInfo (job_id (withArtifacts ! i)))
        \<in> set (concat (map (downloadEventsFor env gitlabInfo target) withArtifacts))"
      using downloadEventsFor_fetch[of gitlabInfo "withArtifacts ! i" env target] by auto
    then show "Fetch (jobArtifactsUrl gitlabInfo (job_id (withArtifacts ! i)))
             \<in> set (snd (downloadPipelineArtifacts env projectPath pipelineId downloadPath))"
      by (simp add: c)
  qed
  have s: "success (fst (downloadPipelineArtifacts env projectPath pipelineId downloadPath))"
    by (simp add: c)
  have d: "\<exists>d. data (fst (downloadPipelineArtifacts env projectPath pipelineId downloadPath)) = Some d
         \<and> dl_downloadResults d = Some results"
    by (simp add: c results_def)
  from s d len each err one fetched show ?thesis by blast
qed

theorem C5_download_failure_isolated_witness:
  "fst (resolveProject archiveStatusEnv demoPath) = Inr demoInfo
   \<and> fst (targetPipelineId archiveStatusEnv demoInfo None) = Inr (Some 7)
   \<and> fetchJobs archiveStatusEnv (jobsUrl demoInfo 7) = Returns (okResponse ''[jobs]'' demoJobs)
   \<and> filter hasArtifactsFile demoJobs = demoJobs
   \<and> fst (ensureDirectory archiveStatusEnv (demoPath @ [''artifacts'', ''pipeline_7''])) = Inr ()
   \<and> map (downloadSucceeds archiveStatusEnv demoInfo (demoPath @ [''artifacts'', ''pipeline_7'']))
         demoJobs = [True, False, True]
   \<and> success (fst (downloadPipelineArtifacts archiveStatusEnv demoPath None None))
   \<and> (\<exists>d results.
         data (fst (downloadPipelineArtifacts archiveStatusEnv demoPath None None)) = Some d
       \<and> dl_downloadResults d = Some results
       \<and> length results = 3
       \<and> length (filter (\<lambda>r. \<not> result_success r) results) = 1
       \<and> result_error (results ! 1) \<noteq> None)
   \<and> Fetch (jobArtifactsUrl demoInfo 13)
        \<in> set (snd (downloadPipelineArtifacts archiveStatusEnv demoPath None None))"
proof -
  let ?target = "demoPath @ [''artifacts'', ''pipeline_7'']"
  have r: "fst (resolveProject archiveStatusEnv demoPath) = Inr demoInfo" by code_simp
  have t: "fst (targetPipelineId archiveStatusEnv demoInfo None) = Inr (Some 7)" by code_simp
  have j: "fetchJobs archiveStatusEnv (jobsUrl demoInfo 7) = Returns (okResponse ''[jobs]'' demoJobs)"
    by (simp add: archiveStatusEnv_def demoEnv_def)
  have ok: "ok (okResponse ''[jobs]'' demoJobs)" by (simp add: okResponse_def)
  have b: "body (okResponse ''[jobs]'' demoJobs) = Returns demoJobs" by (simp add: okResponse_def)
  have w: "demoJobs = filter hasArtifactsFile demoJobs" by code_simp
  have p: "?target = (case None of Some given \<Rightarrow> given
                  | None \<Rightarrow> join (join demoPath ''artifacts'') (''pipeline_'' @ showNat 7))"
    by code_simp
  have e: "fst (ensureDirectory archiveStatusEnv ?target) = Inr ()" by code_simp
  have k: "(1::nat) < length demoJobs" by (simp add: demoJobs_def)
  have m: "map (downloadSucceeds archiveStatusEnv demoInfo ?target) demoJobs = [True, False, True]"
    by code_simp
  have l3: "length demoJobs = 3" by (simp add: demoJobs_def)
  have only: "\<forall>i < length demoJobs.
      downloadSucceeds archiveStatusEnv demoInfo ?target (demoJobs ! i) \<longleftrightarrow> i \<noteq> 1"
  proof (intro allI impI)
    fix i assume "i < length demoJobs"
    then have "i = 0 \<or> i = 1 \<or> i = 2" using l3 by auto
    moreover have "map (downloadSucceeds archiveStatusEnv demoInfo ?target) demoJobs ! i
        = downloadSucceeds archiveStatusEnv demoInfo ?target (demoJobs ! i)"
      using \<open>i < length demoJobs\<close> by simp
    ultimately show "downloadSucceeds archiveStatusEnv demoInfo ?target (demoJobs ! i) \<longleftrightarrow> i \<noteq> 1"
      unfolding m by auto
  qed
  have third: "demoJobs ! 2 = demoJob 13 ''package''" by (simp add: demoJobs_def)
  have id13: "job_id (demoJob 13 ''package'') = 13" by (simp add: demoJob_def)
  from C5_download_failure_isolated[OF r t j ok b w p e k only]
  have "success (fst (downloadPipelineArtifacts archiveStatusEnv demoPath None None))
     \<and> (\<exists>d results.
         data (fst (downloadPipelineArtifacts archiveStatusEnv demoPath None None)) = Some d
       \<and> dl_downloadResults d = Some results
       \<and> length results = 3
       \<and> length (filter (\<lambda>r. \<not> result_success r) results) = 1
       \<and> result_error (results ! 1) \<noteq> None)
     \<and> Fetch (jobArtifactsUrl demoInfo (job_id (demoJobs ! 2)))
        \<in> set (snd (downloadPipelineArtifacts archiveStatusEnv demoPath None None))"
    unfolding l3 by (auto simp del: One_nat_def)
  then show ?thesis
    using r t j w e m by (simp add: third id13)
qed

section \<open>Properties of the envelopes\<close>

lemma yields_ret: "P x \<Longrightarrow> yields P (ret x)"
  by (simp add: yields_def)

lemma yields_apiError: "yields P (apiError call r)"
  by (simp add: yields_def apiError_thrown)

lemma yields_andThen:
  assumes "\<And>x evs. m = (Inr x, evs) \<Longrightarrow> yields P (f x)"
  shows "yields P (andThen m f)"
proof (cases m)
  case (Pair r evs)
  show ?thesis
  proof (cases r)
    case (Inl e)
    then show ?thesis by (simp add: Pair yields_def)
  next
    case (Inr x)
    with assms[of x evs] show ?thesis by (simp add: Pair yields_def)
  qed
qed

lemma raised_fetch_returns:
  "raised (fetch backend url) = (Inr r, evs) \<Longrightarrow> backend url = Returns r"
  by (cases "backend url") (simp_all add: fetch_def)

lemma raised_await_returns: "raised (await out) = (Inr x, evs) \<Longrightarrow> out = Returns x"
  by (cases out) simp_all

lemma catchAll_contract:
  assumes "yields (\<lambda>r. (success r \<and> data r \<noteq> None)
                      \<or> (r = noPipelines \<and> emptyResult)) m"
  shows "envelopeContract (fst (catchAll m)) emptyResult"
proof (cases m)
  case (Pair r evs)
  show ?thesis
  proof (cases r)
    case (Inl e)
    then show ?thesis by (simp add: Pair envelopeContract_def)
  next
    case (Inr x)
    with assms show ?thesis
      by (auto simp: Pair yields_def envelopeContract_def noPipelines_def)
  qed
qed

lemma targetPipelineId_None:
  assumes "targetPipelineId env gitlabInfo pipelineId = (Inr None, evs)"
  shows "(pipelineId = None \<or> pipelineId = Some 0)
     \<and> (case fetchPipelines env (latestPipelineUrl gitlabInfo) of
           Throws m \<Rightarrow> False
         | Returns r \<Rightarrow> ok r \<and> (body r = Returns None \<or> body r = Returns (Some [])))"
proof (cases "pipelineId \<noteq> None \<and> pipelineId \<noteq> Some 0")
  case True
  with assms show ?thesis by (simp add: targetPipelineId_def ret_def)
next
  case False
  show ?thesis
  proof (cases "fetchPipelines env (latestPipelineUrl gitlabInfo)")
    case (Throws m)
    with assms False show ?thesis by (auto simp: targetPipelineId_def fetch_def)
  next
    case (Returns r)
    show ?thesis
    proof (cases "ok r")
      case nok: False
      with assms False show ?thesis
        by (auto simp: targetPipelineId_def fetch_def Returns apiError_thrown)
    next
      case True
      show ?thesis
      proof (cases "body r")
        case (Throws m)
        with assms False True show ?thesis
          by (auto simp: targetPipelineId_def fetch_def Returns)
      next
        case b: (Returns found)
        with assms False True show ?thesis
          by (auto simp: targetPipelineId_def fetch_def Returns ret_def
              split: option.splits list.splits)
      qed
    qed
  qed
qed

lemma emptyPipelineList_via_target:
  assumes "resolveProject env projectPath = (Inr gitlabInfo, evs)"
    and "targetPipelineId env gitlabInfo pipelineId = (Inr None, evs')"
  shows "(pipelineId = None \<or> pipelineId = Some 0) \<and> emptyPipelineList env projectPath"
  using targetPipelineId_None[OF assms(2)] assms(1) by (simp add: emptyPipelineList_def)

lemma getLatestPipeline_contract:
  "envelopeContract (fst (getLatestPipeline env projectPath)) (emptyPipelineList env projectPath)"
  unfolding getLatestPipeline_def
proof (intro catchAll_contract yields_andThen)
  fix gitlabInfo evs response evs'
  assume r: "resolveProject env projectPath = (Inr gitlabInfo, evs)"
    and f: "raised (fetch (fetchPipelines env) (latestPipelineUrl gitlabInfo)) = (Inr response, evs')"
  show "yields (\<lambda>r. success r \<and> data r \<noteq> None \<or> r = noPipelines \<and> emptyPipelineList env projectPath)
     (if \<not> ok response then apiError PlainCall response
      else andThen (raised (await (body response)))
        (\<lambda>pipelines. case pipelines of
            None \<Rightarrow> ret noPipelines
          | Some [] \<Rightarrow> ret noPipelines
          | Some (latestPipeline # others) \<Rightarrow>
              ret \<lparr> success = True, message = LatestPipelineObtained,
                    data = Some (pipelineBrief.truncate latestPipeline, projectOf gitlabInfo) \<rparr>))"
  proof (cases "ok response")
    case False
    then show ?thesis by (simp add: yields_apiError)
  next
    case True
    have "yields (\<lambda>r. success r \<and> data r \<noteq> None \<or> r = noPipelines \<and> emptyPipelineList env projectPath)
       (andThen (raised (await (body response)))
        (\<lambda>pipelines. case pipelines of
            None \<Rightarrow> ret noPipelines
          | Some [] \<Rightarrow> ret noPipelines
          | Some (latestPipeline # others) \<Rightarrow>
              ret \<lparr> success = True, message = LatestPipelineObtained,
                    data = Some (pipelineBrief.truncate latestPipeline, projectOf gitlabInfo) \<rparr>))"
    proof (rule yields_andThen)
      fix pipelines evs''
      assume b: "raised (await (body response)) = (Inr pipelines, evs'')"
      have e: "pipelines = None \<or> pipelines = Some [] \<Longrightarrow> emptyPipelineList env projectPath"
        using r raised_fetch_returns[OF f] raised_await_returns[OF b] True
        by (auto simp: emptyPipelineList_def)
      show "yields (\<lambda>r. success r \<and> data r \<noteq> None \<or> r = noPipelines \<and> emptyPipelineList env projectPath)
         (case pipelines of
            None \<Rightarrow> ret noPipelines
          | Some [] \<Rightarrow> ret noPipelines
          | Some (latestPipeline # others) \<Rightarrow>
              ret \<lparr> success = True, message = LatestPipelineObtained,
                    data = Some (pipelineBrief.truncate latestPipeline, projectOf gitlabInfo) \<rparr>)"
        using e by (auto simp: yields_def split: option.splits list.splits)
    qed
    with True show ?thesis by simp
  qed
qed

lemma yields_if:
  "(c \<Longrightarrow> yields P a) \<Longrightarrow> (\<not> c \<Longrightarrow> yields P b) \<Longrightarrow> yields P (if c then a else b)"
  by simp

lemma yields_case_option:
  "(x = None \<Longrightarrow> yields P a) \<Longrightarrow> (\<And>y. x = Some y \<Longrightarrow> yields P (b y))
     \<Longrightarrow> yields P (case x of None \<Rightarrow> a | Some y \<Rightarrow> b y)"
  by (cases x) simp_all

lemma yields_case_prod:
  "(\<And>a b. x = (a, b) \<Longrightarrow> yields P (f a b)) \<Longrightarrow> yields P (case x of (a, b) \<Rightarrow> f a b)"
  by (cases x) simp

lemma getPipelineDetails_contract:
  "envelopeContract (fst (getPipelineDetails env projectPath pipelineId))
     ((pipelineId = None \<or> pipelineId = Some 0) \<and> emptyPipelineList env projectPath)"
  unfolding getPipelineDetails_def
  by (intro catchAll_contract yields_andThen yields_case_option yields_if yields_apiError yields_ret)
     (auto dest: emptyPipelineList_via_target)

lemma getJobDetails_contract:
  "envelopeContract (fst (getJobDetails env projectPath jobId)) False"
  unfolding getJobDetails_def
  by (intro catchAll_contract yields_andThen yields_ret) simp

lemma getJobLogs_contract:
  "envelopeContract (fst (getJobLogs env projectPath jobId)) False"
  unfolding getJobLogs_def
  by (intro catchAll_contract yields_andThen yields_ret) simp

lemma getJobArtifacts_contract:
  "envelopeContract (fst (getJobArtifacts env projectPath jobId)) False"
  unfolding getJobArtifacts_def
  by (intro catchAll_contract yields_andThen yields_ret) simp

lemma downloadJobArtifacts_contract:
  "envelopeContract (fst (downloadJobArtifacts env projectPath jobId downloadPath)) False"
  unfolding downloadJobArtifacts_def Let_def
  by (intro catchAll_contract yields_andThen yields_if yields_apiError yields_ret) simp_all

lemma downloadPipelineArtifacts_contract:
  "envelopeContract (fst (downloadPipelineArtifacts env projectPath pipelineId downloadPath))
     ((pipelineId = None \<or> pipelineId = Some 0) \<and> emptyPipelineList env projectPath)"
  unfolding downloadPipelineArtifacts_def Let_def
  by (intro catchAll_contract yields_andThen yields_case_option yields_case_prod yields_if
        yields_apiError yields_ret)
     (auto dest: emptyPipelineList_via_target)

text \<open>
  C8. Each of the seven operations has an envelope as its value in every environment
  and for every argument: what is thrown inside is turned into the failure envelope by
  the outer handler. In that envelope success false comes with no data, and success
  true comes with no data only when the operation looked up the latest pipeline
  (\<open>getLatestPipeline\<close>, or one of the two pipeline operations called without a
  pipeline id) and the backend's list of pipelines was empty; the four operations on
  one job never succeed without data.
\<close>

theorem C8_envelope_contract:
  "envelopeContract (fst (getLatestPipeline env projectPath)) (emptyPipelineList env projectPath)
   \<and> envelopeContract (fst (getPipelineDetails env projectPath pipelineId))
        ((pipelineId = None \<or> pipelineId = Some 0) \<and> emptyPipelineList env projectPath)
   \<and> envelopeContract (fst (getJobDetails env projectPath jobId)) False
   \<and> envelopeContract (fst (getJobLogs env projectPath jobId)) False
   \<and> envelopeContract (fst (getJobArtifacts env projectPath jobId)) False
   \<and> envelopeContract (fst (downloadJobArtifacts env projectPath jobId downloadPath)) False
   \<and> envelopeContract (fst (downloadPipelineArtifacts env projectPath pipelineId downloadPath))
        ((pipelineId = None \<or> pipelineId = Some 0) \<and> emptyPipelineList env projectPath)"
  by (intro conjI getLatestPipeline_contract getPipelineDetails_contract getJobDetails_contract
      getJobLogs_contract getJobArtifacts_contract downloadJobArtifacts_contract
      downloadPipelineArtifacts_contract)

theorem C8_envelope_contract_witness:
  "fst (getPipelineDetails emptyPipelinesEnv demoPath None)
     = \<lparr> success = True, message = NoPipelinesFound, data = None \<rparr>
   \<and> emptyPipelineList emptyPipelinesEnv demoPath
   \<and> \<not> success (fst (getJobLogs tokenlessEnv demoPath 12))
   \<and> data (fst (getJobLogs tokenlessEnv demoPath 12)) = None
   \<and> success (fst (getJobDetails demoEnv demoPath 12))
   \<and> data (fst (getJobDetails demoEnv demoPath 12)) \<noteq> None"
proof -
  have a: "fst (getPipelineDetails emptyPipelinesEnv demoPath None)
     = \<lparr> success = True, message = NoPipelinesFound, data = None \<rparr>" by code_simp
  have b: "\<not> success (fst (getJobLogs tokenlessEnv demoPath 12))" by code_simp
  have c: "success (fst (getJobDetails demoEnv demoPath 12))" by code_simp
  from C8_envelope_contract[of emptyPipelinesEnv demoPath None 12 None]
    C8_envelope_contract[of tokenlessEnv demoPath None 12 None]
    C8_envelope_contract[of demoEnv demoPath None 12 None] a b c
  show ?thesis
    by (simp add: envelopeContract_def)
qed

end
